theory Spec2Isabelle
  imports Main "HOL-Library.Sublist"
begin

section \<open>Data model\<close>

text \<open>
  The embedded code is the second source file of the repository (package \<open>pkg\<close>):
  \<open>search\<close>, \<open>AnalyzePath\<close>, \<open>SearchForDockerfile\<close> and \<open>AnalyzeAndDetectDevfile\<close>.
  A Go byte slice is a \<open>string\<close>; a nil slice and an empty one both have length 0, the only
  thing the code asks of them.
\<close>

type_synonym bytes = string

text \<open>
  Go errors as values. \<open>InvalidDevfile\<close> and \<open>NoDevfileFound\<close> are the two error types the
  code builds and tests for; every other error value is \<open>External\<close>.
\<close>

datatype err =
    External string
  | InvalidDevfile err
  | NoDevfileFound string

fun isNoDevfileFound :: "err \<Rightarrow> bool" where
  "isNoDevfileFound (NoDevfileFound l) = True"
| "isNoDevfileFound e = False"

text \<open>An entry of \<open>os.ReadDir\<close>: its name and whether it is a directory.\<close>

datatype DirEntry = DirEntry (Name: string) (IsDir: bool)

text \<open>
  The devfile image components, as far as \<open>SearchForDockerfile\<close> reads them: the pointers
  \<open>component.Image\<close> and \<open>component.Image.Dockerfile\<close> may be nil.
\<close>

datatype DockerfileImage = DockerfileImage (Uri: string) (BuildContext: string)

datatype ImageComponent = ImageComponent (ImageName: string) (Dockerfile: "DockerfileImage option")

datatype Component = Component (ComponentName: string) (Image: "ImageComponent option")

text \<open>
  What Alizer returns. \<open>Ports\<close> is a Go slice that the code tests against nil and against
  the empty slice separately, so nil is \<open>None\<close> and a non-nil slice is \<open>Some\<close>.
\<close>

datatype Language = Language (LanguageName: string) (CanBeComponent: bool)

datatype AlizerComponent = AlizerComponent (Languages: "Language list") (Ports: "int list option")

datatype DevfileType =
  DevfileType (TypeName: string) (TypeLanguage: string) (ProjectType: string) (Tags: "string list option")

definition zeroDevfileType :: DevfileType where
  "zeroDevfileType = DevfileType [] [] [] None"

text \<open>\<open>CDQInfoClient\<close>, flattened: the registry URL and the three fields of \<open>GitURL\<close>.\<close>

record CDQInfoClient =
  DevfileRegistryURL :: string
  RepoURL :: string
  Revision :: string
  Token :: string

text \<open>
  The collaborators the four functions call and that are not part of the embedded file:
  the file system, the devfile parser, the registry and Alizer. They are parameters of the
  model; \<open>'d\<close> is the parser's devfile object. \<open>ParseDevfileData\<close> is
  \<open>ParseDevfileWithParserArgs\<close> on \<open>Data\<close> and \<open>Token\<close>, \<open>ParseDevfileURL\<close> the same
  call on \<open>URL\<close>; \<open>GetImageComponents\<close> is \<open>GetComponents\<close> with the image filter;
  \<open>ErrorText\<close> is the method \<open>Error()\<close>. \<open>SelectDevFileFromTypes\<close> returns both of its Go
  results.
\<close>

record 'd env =
  ReadDir :: "string \<Rightarrow> err + DirEntry list"
  UpdateGitLink :: "string \<Rightarrow> string \<Rightarrow> string \<Rightarrow> err + string"
  ValidateDevfile :: "string \<Rightarrow> string \<Rightarrow> err + (bool \<times> bytes)"
  ParseDevfileData :: "bytes \<Rightarrow> string \<Rightarrow> err + 'd"
  ParseDevfileURL :: "string \<Rightarrow> err + 'd"
  GetImageComponents :: "'d \<Rightarrow> err + Component list"
  yamlMarshal :: "'d \<Rightarrow> err + bytes"
  getAlizerDevfileTypes :: "string \<Rightarrow> err + DevfileType list"
  GetRepoFromRegistry :: "string \<Rightarrow> string \<Rightarrow> err + string"
  DetectComponents :: "string \<Rightarrow> err + AlizerComponent list"
  SelectDevFileFromTypes :: "string \<Rightarrow> DevfileType list \<Rightarrow> DevfileType \<times> err option"
  ErrorText :: "err \<Rightarrow> string"

text \<open>The four maps that \<open>search\<close> builds and \<open>AnalyzePath\<close> updates, keyed by context.\<close>

record maps =
  devfileMapFromRepo :: "string \<rightharpoonup> bytes"
  devfilesURLMapFromRepo :: "string \<rightharpoonup> string"
  dockerfileContextMapFromRepo :: "string \<rightharpoonup> string"
  componentPortsMapFromRepo :: "string \<rightharpoonup> int list"

definition emptyMaps :: maps where
  "emptyMaps = \<lparr>devfileMapFromRepo = Map.empty, devfilesURLMapFromRepo = Map.empty,
     dockerfileContextMapFromRepo = Map.empty, componentPortsMapFromRepo = Map.empty\<rparr>"

text \<open>The maps together with the two flags of one iteration of the outer loop of \<open>search\<close>.\<close>

record scan =
  M :: maps
  isDevfilePresent :: bool
  isDockerfilePresent :: bool

section \<open>Names and paths\<close>

text \<open>
  Modelled from the spec: the package's name constants are declared outside the embedded
  file. The spec gives the manifest names \<open>devfile.yaml\<close>, \<open>.devfile.yaml\<close>,
  \<open>devfile.yml\<close>, \<open>.devfile.yml\<close>, the hidden directory \<open>.devfile\<close>, the build-file names
  \<open>Dockerfile\<close> and \<open>Containerfile\<close> and the build directories \<open>docker\<close>, \<open>.docker\<close>,
  \<open>build\<close>.
\<close>

definition Devfile :: string where "Devfile = ''devfile.yaml''"
definition HiddenDevfile :: string where "HiddenDevfile = ''.devfile.yaml''"
definition DevfileYml :: string where "DevfileYml = ''devfile.yml''"
definition HiddenDirDevfileYml :: string where "HiddenDirDevfileYml = ''.devfile.yml''"
definition HiddenDevfileDir :: string where "HiddenDevfileDir = ''.devfile''"
definition DockerfileName :: string where "DockerfileName = ''Dockerfile''"
definition ContainerfileName :: string where "ContainerfileName = ''Containerfile''"
definition DockerDir :: string where "DockerDir = ''docker''"
definition HiddenDockerDir :: string where "HiddenDockerDir = ''.docker''"
definition BuildDir :: string where "BuildDir = ''build''"

text \<open>
  \<open>strings.ToLower\<close> on the bytes of a name: the letters \<open>A\<close> to \<open>Z\<close> are mapped, every other
  byte is kept (names outside ASCII are not lowered by this model).
\<close>

definition lowerChar :: "char \<Rightarrow> char" where
  "lowerChar c =
     (case map_of (zip ''ABCDEFGHIJKLMNOPQRSTUVWXYZ'' ''abcdefghijklmnopqrstuvwxyz'') c of
        None \<Rightarrow> c
      | Some l \<Rightarrow> l)"

definition ToLower :: "string \<Rightarrow> string" where
  "ToLower s = map lowerChar s"

text \<open>
  \<open>path.Join\<close>: the empty elements are dropped, the others joined with a slash and the
  result cleaned; \<open>path.Clean\<close> drops empty and \<open>.\<close> elements, lets \<open>..\<close> remove the element
  before it (or stay, at the start of a path that is not rooted) and returns \<open>.\<close> for an
  empty result.
\<close>

fun splitSlash :: "string \<Rightarrow> string list" where
  "splitSlash [] = [[]]"
| "splitSlash (c # cs) =
     (if c = CHR ''/'' then [] # splitSlash cs
      else (case splitSlash cs of [] \<Rightarrow> [[c]] | w # ws \<Rightarrow> (c # w) # ws))"

fun joinSlash :: "string list \<Rightarrow> string" where
  "joinSlash [] = []"
| "joinSlash [x] = x"
| "joinSlash (x # y # ys) = x @ CHR ''/'' # joinSlash (y # ys)"

fun cleanStep :: "bool \<Rightarrow> string list \<Rightarrow> string \<Rightarrow> string list" where
  "cleanStep rooted st c =
     (if c = [] \<or> c = ''.'' then st
      else if c = ''..'' then
        (case st of
           [] \<Rightarrow> (if rooted then [] else [''..''])
         | t # ts \<Rightarrow> (if t = ''..'' then ''..'' # st else ts))
      else c # st)"

definition Clean :: "string \<Rightarrow> string" where
  "Clean p =
     (if p = [] then ''.''
      else
        (let rooted = (hd p = CHR ''/'');
             body = joinSlash (rev (foldl (cleanStep rooted) [] (splitSlash p)))
         in if rooted then CHR ''/'' # body
            else if body = [] then ''.'' else body))"

definition pathJoin :: "string list \<Rightarrow> string" where
  "pathJoin elems =
     (let es = filter (\<lambda>e. e \<noteq> []) elems
      in if es = [] then [] else Clean (joinSlash es))"

section \<open>SearchForDockerfile\<close>

text \<open>
  The loop over the image components: the first one whose \<open>Image\<close> and \<open>Dockerfile\<close> are
  set and whose URI is not empty.
\<close>

fun firstDockerfile :: "Component list \<Rightarrow> DockerfileImage option" where
  "firstDockerfile [] = None"
| "firstDockerfile (component # rest) =
     (case Image component of
        None \<Rightarrow> firstDockerfile rest
      | Some img \<Rightarrow>
          (case Dockerfile img of
             None \<Rightarrow> firstDockerfile rest
           | Some d \<Rightarrow> (if Uri d \<noteq> [] then Some d else firstDockerfile rest)))"

definition SearchForDockerfile ::
  "'d env \<Rightarrow> bytes \<Rightarrow> string \<Rightarrow> err + DockerfileImage option" where
  "SearchForDockerfile env devfileBytes token =
     (if length devfileBytes = 0 then Inr None
      else
        (case ParseDevfileData env devfileBytes token of
           Inl e \<Rightarrow> Inl (InvalidDevfile e)
         | Inr devfileData \<Rightarrow>
             (case GetImageComponents env devfileData of
                Inl e \<Rightarrow> Inl e
              | Inr devfileImageComponents \<Rightarrow> Inr (firstDockerfile devfileImageComponents))))"

section \<open>AnalyzeAndDetectDevfile\<close>

text \<open>
  The loop over the languages of the first detected component. Every error return of the
  Go function carries nil results, so the result is either the error or the four values.
\<close>

fun detectFromLanguages ::
  "'d env \<Rightarrow> string \<Rightarrow> string \<Rightarrow> DevfileType list \<Rightarrow> int list option \<Rightarrow> Language list
     \<Rightarrow> err + (bytes \<times> string \<times> string \<times> int list option)" where
  "detectFromLanguages env path devfileRegistryURL alizerDevfileTypes ports [] =
     Inl (NoDevfileFound path)"
| "detectFromLanguages env path devfileRegistryURL alizerDevfileTypes ports (language # rest) =
     (if CanBeComponent language then
        (case SelectDevFileFromTypes env path alizerDevfileTypes of
           (detectedType, selErr) \<Rightarrow>
             (if selErr \<noteq> None \<and>
                 ErrorText env (the selErr) \<noteq> ''No valid devfile found for project in '' @ path
              then Inl (the selErr)
              else if detectedType \<noteq> zeroDevfileType then
                (case GetRepoFromRegistry env (TypeName detectedType) devfileRegistryURL of
                   Inl e \<Rightarrow> Inl e
                 | Inr sampleRepoURL \<Rightarrow>
                     (case UpdateGitLink env sampleRepoURL [] Devfile of
                        Inl e \<Rightarrow> Inl e
                      | Inr detectedDevfileEndpoint \<Rightarrow>
                          (case ParseDevfileURL env detectedDevfileEndpoint of
                             Inl e \<Rightarrow> Inl e
                           | Inr compDevfileData \<Rightarrow>
                               (case yamlMarshal env compDevfileData of
                                  Inl e \<Rightarrow> Inl e
                                | Inr devfileBytes \<Rightarrow>
                                    (if length devfileBytes > 0
                                     then Inr (devfileBytes, detectedDevfileEndpoint,
                                               TypeName detectedType, ports)
                                     else detectFromLanguages env path devfileRegistryURL
                                            alizerDevfileTypes ports rest)))))
              else detectFromLanguages env path devfileRegistryURL alizerDevfileTypes ports rest))
      else detectFromLanguages env path devfileRegistryURL alizerDevfileTypes ports rest)"

definition AnalyzeAndDetectDevfile ::
  "'d env \<Rightarrow> string \<Rightarrow> string \<Rightarrow> err + (bytes \<times> string \<times> string \<times> int list option)" where
  "AnalyzeAndDetectDevfile env path devfileRegistryURL =
     (case getAlizerDevfileTypes env devfileRegistryURL of
        Inl e \<Rightarrow> Inl e
      | Inr alizerDevfileTypes \<Rightarrow>
          (case DetectComponents env path of
             Inl e \<Rightarrow> Inl e
           | Inr alizerComponents \<Rightarrow>
               (case alizerComponents of
                  [] \<Rightarrow> Inl (NoDevfileFound path)
                | c # cs \<Rightarrow>
                    detectFromLanguages env path devfileRegistryURL alizerDevfileTypes
                      (Ports c) (Languages c))))"

section \<open>AnalyzePath\<close>

text \<open>
  The guarded store of the detected ports: only a slice that is neither nil nor empty is
  stored.
\<close>

definition setPorts :: "string \<Rightarrow> int list option \<Rightarrow> maps \<Rightarrow> maps" where
  "setPorts context detectedPorts m =
     (if detectedPorts \<noteq> None \<and> detectedPorts \<noteq> Some []
      then m\<lparr>componentPortsMapFromRepo := (componentPortsMapFromRepo m)(context \<mapsto> the detectedPorts)\<rparr>
      else m)"

text \<open>
  \<open>AnalyzePath\<close> is three blocks in sequence, each a definition here; the maps and the
  flag \<open>isDockerfilePresent\<close> are passed from one to the next. An error return yields the
  error alone: \<open>search\<close> drops the maps in that case.

  First block: with a devfile present, look for a Dockerfile in it. Reading a key that
  the map lacks gives the nil slice.
\<close>

definition analyzeDevfile ::
  "'d env \<Rightarrow> string \<Rightarrow> maps \<Rightarrow> bool \<Rightarrow> bool \<Rightarrow> string \<Rightarrow> err + (maps \<times> bool)" where
  "analyzeDevfile env context m devfilePresent dockerfilePresent token =
     (if devfilePresent then
        (let devfileBytes = (case devfileMapFromRepo m context of None \<Rightarrow> [] | Some b \<Rightarrow> b)
         in case SearchForDockerfile env devfileBytes token of
              Inl e \<Rightarrow> Inl e
            | Inr None \<Rightarrow> Inr (m, dockerfilePresent)
            | Inr (Some dockerfileImage) \<Rightarrow>
                Inr (if prefix ''http'' (Uri dockerfileImage)
                     then m\<lparr>dockerfileContextMapFromRepo :=
                            (dockerfileContextMapFromRepo m)(context \<mapsto> Uri dockerfileImage)\<rparr>
                     else m, True))
      else Inr (m, dockerfilePresent))"

text \<open>
  Second block: without a Dockerfile, ask Alizer; a \<open>NoDevfileFound\<close> error is dropped and
  leaves the nil results.
\<close>

definition analyzeWithAlizer ::
  "'d env \<Rightarrow> string \<Rightarrow> string \<Rightarrow> string \<Rightarrow> maps \<Rightarrow> bool \<Rightarrow> bool \<Rightarrow> string
     \<Rightarrow> err + (maps \<times> bool)" where
  "analyzeWithAlizer env localpath context devfileRegistryURL m devfilePresent dockerfilePresent token =
     (if \<not> dockerfilePresent then
        (case (case AnalyzeAndDetectDevfile env localpath devfileRegistryURL of
                 Inl e \<Rightarrow> (if isNoDevfileFound e then Inr ([], [], [], None) else Inl e)
               | Inr r \<Rightarrow> Inr r) of
           Inl e \<Rightarrow> Inl e
         | Inr (detectedDevfile, detectedDevfileEndpoint, detectedSampleName, detectedPorts) \<Rightarrow>
             (if length detectedDevfile > 0 then
                (let m1 = (if \<not> devfilePresent
                           then m\<lparr>devfileMapFromRepo :=
                                    (devfileMapFromRepo m)(context \<mapsto> detectedDevfile),
                                  devfilesURLMapFromRepo :=
                                    (devfilesURLMapFromRepo m)(context \<mapsto> detectedDevfileEndpoint)\<rparr>
                           else m)
                 in case GetRepoFromRegistry env detectedSampleName devfileRegistryURL of
                      Inl e \<Rightarrow> Inl e
                    | Inr sampleRepoURL \<Rightarrow>
                        (case SearchForDockerfile env detectedDevfile token of
                           Inl e \<Rightarrow> Inl e
                         | Inr dockerfileImage \<Rightarrow>
                             (let dockerfileUri =
                                    (case dockerfileImage of None \<Rightarrow> [] | Some i \<Rightarrow> Uri i)
                              in case UpdateGitLink env sampleRepoURL [] dockerfileUri of
                                   Inl e \<Rightarrow> Inl e
                                 | Inr link \<Rightarrow>
                                     Inr (setPorts context detectedPorts
                                            (m1\<lparr>dockerfileContextMapFromRepo :=
                                                  (dockerfileContextMapFromRepo m1)(context \<mapsto> link)\<rparr>),
                                          True))))
              else Inr (m, dockerfilePresent)))
      else Inr (m, dockerfilePresent))"

text \<open>
  Third block: no devfile but a Dockerfile; Alizer is asked for the ports only, and its
  error is logged, not returned.
\<close>

definition detectPorts ::
  "'d env \<Rightarrow> string \<Rightarrow> string \<Rightarrow> string \<Rightarrow> maps \<Rightarrow> bool \<Rightarrow> bool \<Rightarrow> maps" where
  "detectPorts env localpath context devfileRegistryURL m devfilePresent dockerfilePresent =
     (if \<not> devfilePresent \<and> dockerfilePresent then
        (case AnalyzeAndDetectDevfile env localpath devfileRegistryURL of
           Inl e \<Rightarrow> m
         | Inr (b, u, s, detectedPorts) \<Rightarrow> setPorts context detectedPorts m)
      else m)"

definition AnalyzePath ::
  "'d env \<Rightarrow> string \<Rightarrow> string \<Rightarrow> string \<Rightarrow> maps \<Rightarrow> bool \<Rightarrow> bool \<Rightarrow> string \<Rightarrow> err + maps" where
  "AnalyzePath env localpath context devfileRegistryURL m devfilePresent dockerfilePresent token =
     (case analyzeDevfile env context m devfilePresent dockerfilePresent token of
        Inl e \<Rightarrow> Inl e
      | Inr (m1, dk1) \<Rightarrow>
          (case analyzeWithAlizer env localpath context devfileRegistryURL m1 devfilePresent dk1 token of
             Inl e \<Rightarrow> Inl e
           | Inr (m2, dk2) \<Rightarrow>
               Inr (detectPorts env localpath context devfileRegistryURL m2 devfilePresent dk2)))"

section \<open>search\<close>

definition isDevfileName :: "string \<Rightarrow> bool" where
  "isDevfileName lowerCaseFileName \<longleftrightarrow>
     lowerCaseFileName = Devfile \<or> lowerCaseFileName = HiddenDevfile \<or>
     lowerCaseFileName = DevfileYml \<or> lowerCaseFileName = HiddenDirDevfileYml"

text \<open>
  What \<open>search\<close> does with a devfile it has found; the code has this block twice, for a
  devfile in the context and for one in the hidden directory, with different paths.
\<close>

definition recordDevfile ::
  "'d env \<Rightarrow> CDQInfoClient \<Rightarrow> string \<Rightarrow> string \<Rightarrow> string \<Rightarrow> scan \<Rightarrow> err + scan" where
  "recordDevfile env cdqInfo context devfilePath linkPath st =
     (case UpdateGitLink env (RepoURL cdqInfo) (Revision cdqInfo) linkPath of
        Inl e \<Rightarrow> Inl e
      | Inr updatedLink \<Rightarrow>
          (case ValidateDevfile env devfilePath (Token cdqInfo) of
             Inl e \<Rightarrow> Inl (InvalidDevfile e)
           | Inr (shouldIgnoreDevfile, devfileBytes) \<Rightarrow>
               (if shouldIgnoreDevfile then Inr (st\<lparr>isDevfilePresent := False\<rparr>)
                else Inr (st\<lparr>M := (M st)\<lparr>devfileMapFromRepo :=
                                          (devfileMapFromRepo (M st))(context \<mapsto> devfileBytes),
                                        devfilesURLMapFromRepo :=
                                          (devfilesURLMapFromRepo (M st))(context \<mapsto> updatedLink)\<rparr>,
                             isDevfilePresent := True\<rparr>))))"

text \<open>The loop over the files of the hidden devfile directory.\<close>

fun scanHiddenDir ::
  "'d env \<Rightarrow> CDQInfoClient \<Rightarrow> string \<Rightarrow> string \<Rightarrow> DirEntry list \<Rightarrow> scan \<Rightarrow> err + scan" where
  "scanHiddenDir env cdqInfo context hiddenDirPath [] st = Inr st"
| "scanHiddenDir env cdqInfo context hiddenDirPath (f # fs) st =
     (if isDevfileName (ToLower (Name f)) then
        (case recordDevfile env cdqInfo context (pathJoin [hiddenDirPath, Name f])
                (pathJoin [context, HiddenDevfileDir, Name f]) st of
           Inl e \<Rightarrow> Inl e
         | Inr st' \<Rightarrow> scanHiddenDir env cdqInfo context hiddenDirPath fs st')
      else scanHiddenDir env cdqInfo context hiddenDirPath fs st)"

text \<open>The loop over the files of a build directory.\<close>

fun scanDockerDir :: "string \<Rightarrow> string \<Rightarrow> DirEntry list \<Rightarrow> scan \<Rightarrow> scan" where
  "scanDockerDir context dirName [] st = st"
| "scanDockerDir context dirName (f # fs) st =
     (if ToLower (Name f) = ToLower DockerfileName \<or> ToLower (Name f) = ToLower ContainerfileName
      then scanDockerDir context dirName fs
             (st\<lparr>M := (M st)\<lparr>dockerfileContextMapFromRepo :=
                     (dockerfileContextMapFromRepo (M st))(context \<mapsto> pathJoin [dirName, Name f])\<rparr>,
                 isDockerfilePresent := True\<rparr>)
      else scanDockerDir context dirName fs st)"

text \<open>The body of the loop over the files of one context.\<close>

definition scanEntry ::
  "'d env \<Rightarrow> CDQInfoClient \<Rightarrow> string \<Rightarrow> string \<Rightarrow> DirEntry \<Rightarrow> scan \<Rightarrow> err + scan" where
  "scanEntry env cdqInfo curPath context f st =
     (if isDevfileName (ToLower (Name f)) then
        recordDevfile env cdqInfo context (pathJoin [curPath, Name f]) (pathJoin [context, Name f]) st
      else if IsDir f \<and> Name f = HiddenDevfileDir then
        (case ReadDir env (pathJoin [curPath, HiddenDevfileDir]) of
           Inl e \<Rightarrow> Inl e
         | Inr hiddenfiles \<Rightarrow>
             scanHiddenDir env cdqInfo context (pathJoin [curPath, HiddenDevfileDir]) hiddenfiles st)
      else if ToLower (Name f) = ToLower DockerfileName then
        Inr (st\<lparr>M := (M st)\<lparr>dockerfileContextMapFromRepo :=
                   (dockerfileContextMapFromRepo (M st))(context \<mapsto> Name f)\<rparr>,
               isDockerfilePresent := True\<rparr>)
      else if ToLower (Name f) = ToLower ContainerfileName then
        Inr (st\<lparr>M := (M st)\<lparr>dockerfileContextMapFromRepo :=
                   (dockerfileContextMapFromRepo (M st))(context \<mapsto> ContainerfileName)\<rparr>,
               isDockerfilePresent := True\<rparr>)
      else if IsDir f \<and> (Name f = DockerDir \<or> Name f = HiddenDockerDir \<or> Name f = BuildDir) then
        (case ReadDir env (pathJoin [curPath, Name f]) of
           Inl e \<Rightarrow> Inl e
         | Inr files \<Rightarrow> Inr (scanDockerDir context (Name f) files st))
      else Inr st)"

fun scanFiles ::
  "'d env \<Rightarrow> CDQInfoClient \<Rightarrow> string \<Rightarrow> string \<Rightarrow> DirEntry list \<Rightarrow> scan \<Rightarrow> err + scan" where
  "scanFiles env cdqInfo curPath context [] st = Inr st"
| "scanFiles env cdqInfo curPath context (f # fs) st =
     (case scanEntry env cdqInfo curPath context f st of
        Inl e \<Rightarrow> Inl e
      | Inr st' \<Rightarrow> scanFiles env cdqInfo curPath context fs st')"

text \<open>
  After the files of a context: with both a devfile and a Dockerfile, the Dockerfile entry
  is deleted and its flag reset.
\<close>

definition unsetDockerfile :: "string \<Rightarrow> scan \<Rightarrow> scan" where
  "unsetDockerfile context st =
     (if isDevfilePresent st \<and> isDockerfilePresent st
      then st\<lparr>M := (M st)\<lparr>dockerfileContextMapFromRepo :=
                  (dockerfileContextMapFromRepo (M st))(context := None)\<rparr>,
              isDockerfilePresent := False\<rparr>
      else st)"

text \<open>
  The scanning part of one iteration of the outer loop, for a directory \<open>f\<close> of the root:
  both flags start false, the files of the directory are read and scanned.
\<close>

definition scanContext ::
  "'d env \<Rightarrow> CDQInfoClient \<Rightarrow> string \<Rightarrow> string \<Rightarrow> DirEntry \<Rightarrow> maps \<Rightarrow> err + scan" where
  "scanContext env cdqInfo localpath srcContext f m =
     (case ReadDir env (pathJoin [localpath, Name f]) of
        Inl e \<Rightarrow> Inl e
      | Inr files \<Rightarrow>
          (case scanFiles env cdqInfo (pathJoin [localpath, Name f]) (pathJoin [srcContext, Name f])
                  files \<lparr>M = m, isDevfilePresent = False, isDockerfilePresent = False\<rparr> of
             Inl e \<Rightarrow> Inl e
           | Inr st \<Rightarrow> Inr (unsetDockerfile (pathJoin [srcContext, Name f]) st)))"

text \<open>One iteration of the outer loop.\<close>

definition searchEntry ::
  "'d env \<Rightarrow> CDQInfoClient \<Rightarrow> string \<Rightarrow> string \<Rightarrow> DirEntry \<Rightarrow> maps \<Rightarrow> err + maps" where
  "searchEntry env cdqInfo localpath srcContext f m =
     (if IsDir f then
        (case scanContext env cdqInfo localpath srcContext f m of
           Inl e \<Rightarrow> Inl e
         | Inr st \<Rightarrow>
             (if (\<not> isDevfilePresent st \<and> \<not> isDockerfilePresent st) \<or>
                 (isDevfilePresent st \<and> \<not> isDockerfilePresent st)
              then AnalyzePath env (pathJoin [localpath, Name f]) (pathJoin [srcContext, Name f])
                     (DevfileRegistryURL cdqInfo) (M st) (isDevfilePresent st)
                     (isDockerfilePresent st) (Token cdqInfo)
              else Inr (M st)))
      else Inr m)"

fun searchLoop ::
  "'d env \<Rightarrow> CDQInfoClient \<Rightarrow> string \<Rightarrow> string \<Rightarrow> DirEntry list \<Rightarrow> maps \<Rightarrow> err + maps" where
  "searchLoop env cdqInfo localpath srcContext [] m = Inr m"
| "searchLoop env cdqInfo localpath srcContext (f # fs) m =
     (case searchEntry env cdqInfo localpath srcContext f m of
        Inl e \<Rightarrow> Inl e
      | Inr m' \<Rightarrow> searchLoop env cdqInfo localpath srcContext fs m')"

text \<open>
  \<open>search\<close>: \<open>Inl\<close> is the return of four nil maps and the error, \<open>Inr\<close> the return of the
  four maps and a nil error.
\<close>

definition search ::
  "'d env \<Rightarrow> string \<Rightarrow> string \<Rightarrow> CDQInfoClient \<Rightarrow> err + maps" where
  "search env localpath srcContext cdqInfo =
     (case ReadDir env localpath of
        Inl e \<Rightarrow> Inl e
      | Inr files \<Rightarrow> searchLoop env cdqInfo localpath srcContext files emptyMaps)"

section \<open>What the scan reads\<close>

text \<open>
  The directories and the manifest files within the depth the scan is said to cover: the
  root, each of its immediate sub-directories with the four special directories below it,
  and the files with a manifest name in a sub-directory or in its hidden devfile directory.
\<close>

definition manifestsIn :: "'d env \<Rightarrow> string \<Rightarrow> string list" where
  "manifestsIn env dir =
     (case ReadDir env dir of
        Inl e \<Rightarrow> []
      | Inr files \<Rightarrow>
          map (\<lambda>g. pathJoin [dir, Name g]) (filter (\<lambda>g. isDevfileName (ToLower (Name g))) files))"

definition contextDirs :: "string \<Rightarrow> string list" where
  "contextDirs curPath =
     curPath # map (\<lambda>s. pathJoin [curPath, s]) [HiddenDevfileDir, DockerDir, HiddenDockerDir, BuildDir]"

definition scannedDirs :: "'d env \<Rightarrow> string \<Rightarrow> string list" where
  "scannedDirs env localpath =
     localpath #
     (case ReadDir env localpath of
        Inl e \<Rightarrow> []
      | Inr files \<Rightarrow>
          concat (map (\<lambda>f. contextDirs (pathJoin [localpath, Name f])) (filter IsDir files)))"

definition scannedManifests :: "'d env \<Rightarrow> string \<Rightarrow> string list" where
  "scannedManifests env localpath =
     (case ReadDir env localpath of
        Inl e \<Rightarrow> []
      | Inr files \<Rightarrow>
          concat (map (\<lambda>f. manifestsIn env (pathJoin [localpath, Name f]) @
                            manifestsIn env (pathJoin [pathJoin [localpath, Name f], HiddenDevfileDir]))
                   (filter IsDir files)))"

text \<open>
  Every port entry of the maps \<open>m\<close> is a non-empty list that detection returned for a
  directory of \<open>fs\<close> whose context is the key.
\<close>

definition portsDetected ::
  "'d env \<Rightarrow> CDQInfoClient \<Rightarrow> string \<Rightarrow> string \<Rightarrow> DirEntry list \<Rightarrow> maps \<Rightarrow> bool" where
  "portsDetected env q lp sc fs m \<longleftrightarrow>
     (\<forall>k ps. componentPortsMapFromRepo m k = Some ps \<longrightarrow>
        ps \<noteq> [] \<and>
        (\<exists>f \<in> set fs. \<exists>b u s. IsDir f \<and> k = pathJoin [sc, Name f] \<and>
           AnalyzeAndDetectDevfile env (pathJoin [lp, Name f]) (DevfileRegistryURL q) =
             Inr (b, u, s, Some ps)))"

section \<open>Reading a result\<close>

text \<open>The four entries of one context, of the maps or of a result of \<open>search\<close>.\<close>

definition contextEntries ::
  "maps \<Rightarrow> string \<Rightarrow> bytes option \<times> string option \<times> string option \<times> int list option" where
  "contextEntries m c =
     (devfileMapFromRepo m c, devfilesURLMapFromRepo m c, dockerfileContextMapFromRepo m c,
      componentPortsMapFromRepo m c)"

definition resultEntries ::
  "err + maps \<Rightarrow> string \<Rightarrow> err + (bytes option \<times> string option \<times> string option \<times> int list option)" where
  "resultEntries r c = (case r of Inl e \<Rightarrow> Inl e | Inr m \<Rightarrow> Inr (contextEntries m c))"


text \<open>The maps \<open>m'\<close> have the entries of \<open>m\<close> for every context but \<open>c\<close>.\<close>

definition sameElsewhere :: "string \<Rightarrow> maps \<Rightarrow> maps \<Rightarrow> bool" where
  "sameElsewhere c m m' \<longleftrightarrow> (\<forall>k. k \<noteq> c \<longrightarrow> contextEntries m' k = contextEntries m k)"


text \<open>The two flags and the entries of one context after a scan.\<close>

definition scanOutcome ::
  "err + scan \<Rightarrow> string
     \<Rightarrow> err + (bool \<times> bool \<times> bytes option \<times> string option \<times> string option \<times> int list option)" where
  "scanOutcome r c =
     (case r of
        Inl e \<Rightarrow> Inl e
      | Inr st \<Rightarrow> Inr (isDevfilePresent st, isDockerfilePresent st, contextEntries (M st) c))"

section \<open>Ignored manifests\<close>

text \<open>
  The manifest at \<open>devfilePath\<close> is accepted and classified as ignored, and its link was
  built; every file with a manifest name in the listing of \<open>dir\<close> is such a manifest; the
  file system with the files that have a manifest name removed from every listing; and a
  scan state without a devfile, whose devfile maps are those of an earlier state.
\<close>

definition ignoredManifest :: "'d env \<Rightarrow> CDQInfoClient \<Rightarrow> string \<Rightarrow> string \<Rightarrow> bool" where
  "ignoredManifest env cdqInfo devfilePath linkPath \<longleftrightarrow>
     (case UpdateGitLink env (RepoURL cdqInfo) (Revision cdqInfo) linkPath of
        Inl e \<Rightarrow> False
      | Inr updatedLink \<Rightarrow>
          (case ValidateDevfile env devfilePath (Token cdqInfo) of
             Inl e \<Rightarrow> False
           | Inr (shouldIgnoreDevfile, devfileBytes) \<Rightarrow> shouldIgnoreDevfile))"

definition manifestsIgnored :: "'d env \<Rightarrow> CDQInfoClient \<Rightarrow> string \<Rightarrow> string list \<Rightarrow> bool" where
  "manifestsIgnored env cdqInfo dir linkDir \<longleftrightarrow>
     (case ReadDir env dir of
        Inl e \<Rightarrow> True
      | Inr files \<Rightarrow>
          list_all (\<lambda>g. isDevfileName (ToLower (Name g)) \<longrightarrow>
                      ignoredManifest env cdqInfo (pathJoin [dir, Name g]) (pathJoin (linkDir @ [Name g])))
            files)"

definition withoutManifests :: "'d env \<Rightarrow> 'd env" where
  "withoutManifests env =
     env\<lparr>ReadDir := (\<lambda>p. case ReadDir env p of
                          Inl e \<Rightarrow> Inl e
                        | Inr files \<Rightarrow> Inr (filter (\<lambda>g. \<not> isDevfileName (ToLower (Name g))) files))\<rparr>"

definition noDevfileSince :: "scan \<Rightarrow> scan \<Rightarrow> bool" where
  "noDevfileSince st st' \<longleftrightarrow>
     \<not> isDevfilePresent st' \<and> devfileMapFromRepo (M st') = devfileMapFromRepo (M st) \<and>
     devfilesURLMapFromRepo (M st') = devfilesURLMapFromRepo (M st)"

section \<open>A concrete repository\<close>

text \<open>
  A small file system, parser, registry and Alizer, on which the functions are evaluated:
  eleven roots \<open>/r1\<close> to \<open>/r11\<close>, each with its sub-directories, the outcome of
  \<open>ValidateDevfile\<close> for every manifest in them, and a parser that knows four devfiles by
  their bytes. Alizer finds one Go component with the ports 8080 and 9090 everywhere but in
  four directories; in \<open>/r9/lib\<close> it finds the ports and no language that can be a component.
\<close>

definition demoInfo :: CDQInfoClient where
  "demoInfo = \<lparr>DevfileRegistryURL = ''https://registry.example'', RepoURL = ''https://git.example/repo'',
     Revision = ''main'', Token = []\<rparr>"

definition demoTree :: "(string \<times> DirEntry list) list" where
  "demoTree =
     [(''/r1'', [DirEntry ''README.md'' False, DirEntry ''both'' True, DirEntry ''quiet'' True]),
      (''/r1/both'', [DirEntry ''Dockerfile'' False, DirEntry ''devfile.yaml'' False]),
      (''/r1/quiet'', [DirEntry ''Dockerfile'' False, DirEntry ''devfile.yaml'' False]),
      (''/r2'', [DirEntry ''a'' True, DirEntry ''b'' True]),
      (''/r2/a'', [DirEntry ''devfile.yaml'' False]),
      (''/r2/b'', [DirEntry ''devfile.yaml'' False, DirEntry ''main.go'' False]),
      (''/r3'', [DirEntry ''empty'' True, DirEntry ''go'' True]),
      (''/r3/empty'', [DirEntry ''notes.txt'' False]),
      (''/r3/go'', [DirEntry ''main.go'' False]),
      (''/r4'', [DirEntry ''svc'' True]),
      (''/r4/svc'', [DirEntry ''Dockerfile'' False, DirEntry ''main.go'' False]),
      (''/r5'', [DirEntry ''svc'' True]),
      (''/r5/svc'', [DirEntry ''devfile.yaml'' False]),
      (''/r6'', [DirEntry ''svc'' True]),
      (''/r6/svc'', [DirEntry ''.devfile.yaml'' False, DirEntry ''devfile.yaml'' False]),
      (''/r7'', [DirEntry ''svc'' True, DirEntry ''web'' True]),
      (''/r7/svc'', [DirEntry ''src'' True]),
      (''/r7/svc/src'', [DirEntry ''deep'' True]),
      (''/r7/web'', [DirEntry ''devfile.yaml'' False]),
      (''/r8'', [DirEntry ''svc'' True]),
      (''/r8/svc'', [DirEntry ''.devfile'' True, DirEntry ''main.go'' False]),
      (''/r8/svc/.devfile'', [DirEntry ''devfile.yaml'' False]),
      (''/r9'', [DirEntry ''lib'' True]),
      (''/r9/lib'', [DirEntry ''README.md'' False]),
      (''/r10'', [DirEntry ''svc'' True, DirEntry ''web'' True]),
      (''/r10/svc'', [DirEntry ''.devfile'' True, DirEntry ''main.go'' False]),
      (''/r10/svc/.devfile'', [DirEntry ''devfile.yaml'' False]),
      (''/r10/web'', [DirEntry ''devfile.yaml'' False]),
      (''/r11'', [DirEntry ''plain'' True]),
      (''/r11/plain'', [DirEntry ''Dockerfile'' False, DirEntry ''devfile.yaml'' False])]"

definition demoManifests :: "(string \<times> (err + bool \<times> bytes)) list" where
  "demoManifests =
     [(''/r1/both/devfile.yaml'', Inr (False, ''local-http'')),
      (''/r1/quiet/devfile.yaml'', Inr (False, ''local-plain'')),
      (''/r2/a/devfile.yaml'', Inr (False, ''local-http'')),
      (''/r2/b/devfile.yaml'', Inl (External ''schemaVersion not present in devfile'')),
      (''/r5/svc/devfile.yaml'', Inr (True, ''inner-loop'')),
      (''/r6/svc/.devfile.yaml'', Inr (False, ''local-plain'')),
      (''/r6/svc/devfile.yaml'', Inr (True, ''inner-loop'')),
      (''/r7/web/devfile.yaml'', Inr (False, ''local-http'')),
      (''/r8/svc/.devfile/devfile.yaml'', Inl (External ''schemaVersion not present in devfile'')),
      (''/r10/svc/.devfile/devfile.yaml'', Inr (True, ''inner-loop'')),
      (''/r10/web/devfile.yaml'', Inr (False, ''local-http'')),
      (''/r11/plain/devfile.yaml'', Inr (False, ''local-relative''))]"

definition demoParse :: "bytes \<Rightarrow> err + Component list" where
  "demoParse b =
     (if b = ''local-http'' then
        Inr [Component ''tools'' None,
             Component ''image-build''
               (Some (ImageComponent ''svc'' (Some (DockerfileImage ''http://example.com/Dockerfile'' ''.'')))),
             Component ''other-build''
               (Some (ImageComponent ''other'' (Some (DockerfileImage ''http://example.com/other'' ''.''))))]
      else if b = ''local-relative'' then
        Inr [Component ''image-build''
               (Some (ImageComponent ''svc'' (Some (DockerfileImage ''docker/Dockerfile'' ''.''))))]
      else if b = ''local-plain'' then Inr []
      else if b = ''sample-devfile'' then
        Inr [Component ''image-build''
               (Some (ImageComponent ''go'' (Some (DockerfileImage ''docker/Dockerfile'' ''.''))))]
      else Inl (External ''not a devfile''))"

definition demoEnv :: "Component list env" where
  "demoEnv =
     \<lparr>ReadDir = (\<lambda>p. case map_of demoTree p of
                        None \<Rightarrow> Inl (External ''no such file or directory'')
                      | Some es \<Rightarrow> Inr es),
      UpdateGitLink = (\<lambda>repo revision p. Inr (repo @ ''@'' @ revision @ '':'' @ p)),
      ValidateDevfile = (\<lambda>p token. case map_of demoManifests p of
                        None \<Rightarrow> Inl (External ''no such file or directory'')
                      | Some r \<Rightarrow> r),
      ParseDevfileData = (\<lambda>b token. demoParse b),
      ParseDevfileURL = (\<lambda>url. demoParse ''sample-devfile''),
      GetImageComponents = Inr,
      yamlMarshal = (\<lambda>d. Inr ''sample-devfile''),
      getAlizerDevfileTypes = (\<lambda>reg. Inr [DevfileType ''go-basic'' ''Go'' ''Go'' None]),
      GetRepoFromRegistry = (\<lambda>name reg. Inr (''https://samples.example/'' @ name)),
      DetectComponents = (\<lambda>p. if p = ''/r3/empty'' \<or> p = ''/r1/quiet'' then Inr []
                        else if p = ''/r3/noports'' then Inr [AlizerComponent [Language ''Go'' True] (Some [])]
                        else if p = ''/r9/lib''
                          then Inr [AlizerComponent [Language ''Markdown'' False] (Some [8080, 9090])]
                        else Inr [AlizerComponent [Language ''Go'' True] (Some [8080, 9090])]),
      SelectDevFileFromTypes = (\<lambda>p types. case types of
                        [] \<Rightarrow> (zeroDevfileType, Some (External (''No valid devfile found for project in '' @ p)))
                      | t # ts \<Rightarrow> (t, None)),
      ErrorText = (\<lambda>e. case e of External s \<Rightarrow> s | InvalidDevfile e' \<Rightarrow> ''invalid devfile''
                      | NoDevfileFound l \<Rightarrow> ''unable to find devfile'')\<rparr>"

section \<open>Properties of SearchForDockerfile and AnalyzePath\<close>

lemma detectFromLanguages_nonempty:
  "detectFromLanguages env path reg tys ports ls = Inr (b, u, s, p) \<Longrightarrow> b \<noteq> [] \<and> p = ports"
  by (induction ls) (auto split: if_splits sum.splits prod.splits)

lemma AnalyzeAndDetectDevfile_nonempty:
  "AnalyzeAndDetectDevfile env path reg = Inr (b, u, s, p) \<Longrightarrow> b \<noteq> []"
  by (auto simp: AnalyzeAndDetectDevfile_def split: sum.splits list.splits
      dest: detectFromLanguages_nonempty)

lemma setPorts_other: "k \<noteq> c \<Longrightarrow> componentPortsMapFromRepo (setPorts c p m) k = componentPortsMapFromRepo m k"
  by (simp add: setPorts_def)

lemma setPorts_frame:
  "devfileMapFromRepo (setPorts c p m) = devfileMapFromRepo m"
  "devfilesURLMapFromRepo (setPorts c p m) = devfilesURLMapFromRepo m"
  "dockerfileContextMapFromRepo (setPorts c p m) = dockerfileContextMapFromRepo m"
  by (simp_all add: setPorts_def)

lemma setPorts_at:
  "componentPortsMapFromRepo (setPorts c p m) c =
     (case p of None \<Rightarrow> componentPortsMapFromRepo m c
      | Some ps \<Rightarrow> if ps = [] then componentPortsMapFromRepo m c else Some ps)"
  by (simp add: setPorts_def split: option.splits)

lemma setPorts_idem: "setPorts c p (setPorts c p m) = setPorts c p m"
  by (simp add: setPorts_def)

lemma analyzeDevfile_ports:
  "analyzeDevfile env c m dv dk t = Inr (m1, dk1) \<Longrightarrow>
     componentPortsMapFromRepo m1 = componentPortsMapFromRepo m \<and>
     devfileMapFromRepo m1 = devfileMapFromRepo m \<and>
     devfilesURLMapFromRepo m1 = devfilesURLMapFromRepo m"
  by (auto simp: analyzeDevfile_def Let_def split: if_splits sum.splits option.splits)

lemma analyzeDevfile_flag:
  "analyzeDevfile env c m dv dk t = Inr (m1, dk1) \<Longrightarrow>
     dk1 = (if dv \<and> SearchForDockerfile env (case devfileMapFromRepo m c of None \<Rightarrow> [] | Some b \<Rightarrow> b) t \<noteq> Inr None
            then True else dk)"
  by (auto simp: analyzeDevfile_def Let_def split: if_splits sum.splits option.splits)

lemma analyzeWithAlizer_devfile_frame:
  "analyzeWithAlizer env lp c reg m True dk t = Inr (m2, dk2) \<Longrightarrow>
     devfileMapFromRepo m2 = devfileMapFromRepo m \<and>
     devfilesURLMapFromRepo m2 = devfilesURLMapFromRepo m"
  by (auto simp: analyzeWithAlizer_def Let_def setPorts_frame split: if_splits sum.splits prod.splits)

lemma detectPorts_frame:
  "devfileMapFromRepo (detectPorts env lp c reg m dv dk) = devfileMapFromRepo m"
  "devfilesURLMapFromRepo (detectPorts env lp c reg m dv dk) = devfilesURLMapFromRepo m"
  "dockerfileContextMapFromRepo (detectPorts env lp c reg m dv dk) = dockerfileContextMapFromRepo m"
  by (simp_all add: detectPorts_def setPorts_frame split: sum.splits prod.splits)

lemma AnalyzePath_devfile_frame:
  assumes "AnalyzePath env lp c reg m True dk t = Inr m'"
  shows "devfileMapFromRepo m' = devfileMapFromRepo m \<and> devfilesURLMapFromRepo m' = devfilesURLMapFromRepo m"
proof -
  from assms obtain m1 dk1 m2 dk2 where
    a: "analyzeDevfile env c m True dk t = Inr (m1, dk1)" and
    b: "analyzeWithAlizer env lp c reg m1 True dk1 t = Inr (m2, dk2)" and
    c: "m' = detectPorts env lp c reg m2 True dk2"
    by (auto simp: AnalyzePath_def split: sum.splits prod.splits)
  from analyzeDevfile_ports[OF a] analyzeWithAlizer_devfile_frame[OF b] c
  show ?thesis by (simp add: detectPorts_frame)
qed

text \<open>
  C8: with a devfile present whose image components are \<open>pre @ component # post\<close>, where no
  component of \<open>pre\<close> has a Dockerfile with a URI and \<open>component\<close> is the first that has
  one, \<open>AnalyzePath\<close> stores that URI as the Dockerfile entry of the context exactly when it
  starts with \<open>http\<close>; a URI without that prefix leaves the maps as they were.
\<close>

theorem embedded_dockerfile_recorded_only_if_absolute:
  assumes bytes: "devfileMapFromRepo m context = Some devfileBytes" "devfileBytes \<noteq> []"
    and parse: "ParseDevfileData env devfileBytes token = Inr devfileData"
    and comps: "GetImageComponents env devfileData = Inr (pre @ component # post)"
    and first: "firstDockerfile pre = None"
    and img: "Image component = Some img" "Dockerfile img = Some dockerfileImage"
      "Uri dockerfileImage \<noteq> []"
  shows "AnalyzePath env localpath context reg m True dk token =
         Inr (if prefix ''http'' (Uri dockerfileImage)
              then m\<lparr>dockerfileContextMapFromRepo :=
                     (dockerfileContextMapFromRepo m)(context \<mapsto> Uri dockerfileImage)\<rparr>
              else m)"
proof -
  have f: "firstDockerfile (pre @ component # post) = Some dockerfileImage"
    using first img by (induction pre) (auto split: option.splits if_splits)
  have s: "SearchForDockerfile env devfileBytes token = Inr (Some dockerfileImage)"
    using bytes parse comps f by (simp add: SearchForDockerfile_def)
  show ?thesis
    using s bytes
    by (simp add: AnalyzePath_def analyzeDevfile_def analyzeWithAlizer_def detectPorts_def)
qed

lemma analyzeWithAlizer_ports:
  assumes "analyzeWithAlizer env lp c reg m dv dk t = Inr (m2, dk2)"
  shows "componentPortsMapFromRepo m2 =
     (if \<not> dk then
        (case AnalyzeAndDetectDevfile env lp reg of
           Inr (b, u, s, p) \<Rightarrow> componentPortsMapFromRepo (setPorts c p m)
         | Inl e \<Rightarrow> componentPortsMapFromRepo m)
      else componentPortsMapFromRepo m)"
    and "dk2 = (if \<not> dk then (case AnalyzeAndDetectDevfile env lp reg of Inr r \<Rightarrow> True | Inl e \<Rightarrow> False) else dk)"
  using assms
  by (auto simp: analyzeWithAlizer_def Let_def setPorts_def split: if_splits sum.splits prod.splits
      dest: AnalyzeAndDetectDevfile_nonempty)

lemma detectPorts_ports:
  "componentPortsMapFromRepo (detectPorts env lp c reg m dv dk) =
     (if \<not> dv \<and> dk then
        (case AnalyzeAndDetectDevfile env lp reg of
           Inr (b, u, s, p) \<Rightarrow> componentPortsMapFromRepo (setPorts c p m)
         | Inl e \<Rightarrow> componentPortsMapFromRepo m)
      else componentPortsMapFromRepo m)"
  by (simp add: detectPorts_def split: sum.splits prod.splits)

lemma AnalyzePath_ports:
  assumes "AnalyzePath env lp c reg m dv dk t = Inr m'"
  shows "componentPortsMapFromRepo m' =
     (if \<not> dv \<or> (\<not> dk \<and> SearchForDockerfile env (case devfileMapFromRepo m c of None \<Rightarrow> [] | Some b \<Rightarrow> b) t = Inr None)
      then (case AnalyzeAndDetectDevfile env lp reg of
           Inr (b, u, s, p) \<Rightarrow> componentPortsMapFromRepo (setPorts c p m)
         | Inl e \<Rightarrow> componentPortsMapFromRepo m)
      else componentPortsMapFromRepo m)"
proof -
  from assms obtain m1 dk1 m2 dk2 where
    a: "analyzeDevfile env c m dv dk t = Inr (m1, dk1)" and
    b: "analyzeWithAlizer env lp c reg m1 dv dk1 t = Inr (m2, dk2)" and
    c: "m' = detectPorts env lp c reg m2 dv dk2"
    by (auto simp: AnalyzePath_def split: sum.splits prod.splits)
  note a1 = analyzeDevfile_ports[OF a] and a2 = analyzeDevfile_flag[OF a]
  note b1 = analyzeWithAlizer_ports[OF b]
  have d: "componentPortsMapFromRepo m' =
     (if \<not> dv \<and> dk2 then
        (case AnalyzeAndDetectDevfile env lp reg of
           Inr (b, u, s, p) \<Rightarrow> componentPortsMapFromRepo (setPorts c p m2)
         | Inl e \<Rightarrow> componentPortsMapFromRepo m2)
      else componentPortsMapFromRepo m2)"
    unfolding c by (rule detectPorts_ports)
  show ?thesis
  proof (cases "AnalyzeAndDetectDevfile env lp reg")
    case (Inl e)
    with d b1 a1 a2 show ?thesis by (simp split: if_splits)
  next
    case (Inr r)
    obtain b u s p where r: "r = (b, u, s, p)" by (cases r) auto
    from d b1 a1 a2 Inr r show ?thesis
      by (cases dv; cases dk) (auto simp: setPorts_def)
  qed
qed

lemma AnalyzePath_devfile_declared:
  assumes "SearchForDockerfile env (case devfileMapFromRepo m c of None \<Rightarrow> [] | Some b \<Rightarrow> b) t = Inr (Some img)"
  shows "AnalyzePath env lp c reg m True dk t =
      Inr (if prefix ''http'' (Uri img)
           then m\<lparr>dockerfileContextMapFromRepo := (dockerfileContextMapFromRepo m)(c \<mapsto> Uri img)\<rparr>
           else m)"
  using assms
  by (simp add: AnalyzePath_def analyzeDevfile_def analyzeWithAlizer_def detectPorts_def)

lemma AnalyzePath_devfile_undeclared:
  assumes "SearchForDockerfile env (case devfileMapFromRepo m c of None \<Rightarrow> [] | Some b \<Rightarrow> b) t = Inr None"
  shows "AnalyzePath env lp c reg m True False t =
      (case analyzeWithAlizer env lp c reg m True False t of Inl e \<Rightarrow> Inl e | Inr (m2, dk2) \<Rightarrow> Inr m2)"
  using assms
  by (simp add: AnalyzePath_def analyzeDevfile_def detectPorts_def split: sum.splits prod.splits)

lemma AnalyzePath_devfile_error:
  assumes "SearchForDockerfile env (case devfileMapFromRepo m c of None \<Rightarrow> [] | Some b \<Rightarrow> b) t = Inl e"
  shows "AnalyzePath env lp c reg m True dk t = Inl e"
  using assms
  by (simp add: AnalyzePath_def analyzeDevfile_def)

lemma analyzeWithAlizer_dockerfile:
  assumes "analyzeWithAlizer env lp c reg m dv False t = Inr (m2, dk2)"
  shows "case AnalyzeAndDetectDevfile env lp reg of
           Inl e \<Rightarrow> dockerfileContextMapFromRepo m2 = dockerfileContextMapFromRepo m
         | Inr (b, u, s, p) \<Rightarrow>
             (\<exists>repo img link. GetRepoFromRegistry env s reg = Inr repo \<and>
                SearchForDockerfile env b t = Inr img \<and>
                UpdateGitLink env repo [] (case img of None \<Rightarrow> [] | Some i \<Rightarrow> Uri i) = Inr link \<and>
                dockerfileContextMapFromRepo m2 = (dockerfileContextMapFromRepo m)(c \<mapsto> link))"
  using assms
  by (auto simp: analyzeWithAlizer_def Let_def setPorts_frame split: if_splits sum.splits prod.splits
      dest: AnalyzeAndDetectDevfile_nonempty)

lemma searchEntry_manifest_and_dockerfile:
  assumes dir: "IsDir f"
    and paths: "curPath = pathJoin [localpath, Name f]" "context = pathJoin [srcContext, Name f]"
    and listing: "ReadDir env curPath = Inr files"
    and scanned: "scanFiles env cdqInfo curPath context files
                    \<lparr>M = m, isDevfilePresent = False, isDockerfilePresent = False\<rparr> = Inr st"
      "isDevfilePresent st" "isDockerfilePresent st"
    and deleted: "m0 = (M st)\<lparr>dockerfileContextMapFromRepo :=
                              (dockerfileContextMapFromRepo (M st))(context := None)\<rparr>"
    and bytes: "devfileBytes = (case devfileMapFromRepo (M st) context of None \<Rightarrow> [] | Some b \<Rightarrow> b)"
    and result: "searchEntry env cdqInfo localpath srcContext f m = Inr m'"
  shows "AnalyzePath env curPath context (DevfileRegistryURL cdqInfo) m0 True False (Token cdqInfo) = Inr m' \<and>
         (case SearchForDockerfile env devfileBytes (Token cdqInfo) of
            Inl e \<Rightarrow> False
          | Inr (Some dockerfileImage) \<Rightarrow>
              dockerfileContextMapFromRepo m' context =
                (if prefix ''http'' (Uri dockerfileImage) then Some (Uri dockerfileImage) else None)
          | Inr None \<Rightarrow>
              (case AnalyzeAndDetectDevfile env curPath (DevfileRegistryURL cdqInfo) of
                 Inl e \<Rightarrow> dockerfileContextMapFromRepo m' context = None
               | Inr (b, u, sampleName, p) \<Rightarrow>
                   (\<exists>sampleRepoURL img link.
                      GetRepoFromRegistry env sampleName (DevfileRegistryURL cdqInfo) = Inr sampleRepoURL \<and>
                      SearchForDockerfile env b (Token cdqInfo) = Inr img \<and>
                      UpdateGitLink env sampleRepoURL []
                        (case img of None \<Rightarrow> [] | Some i \<Rightarrow> Uri i) = Inr link \<and>
                      dockerfileContextMapFromRepo m' context = Some link)))"
proof -
  have sc: "scanContext env cdqInfo localpath srcContext f m =
      Inr (st\<lparr>M := m0, isDockerfilePresent := False\<rparr>)"
    using listing scanned unfolding paths deleted
    by (simp add: scanContext_def unsetDockerfile_def)
  have a: "AnalyzePath env curPath context (DevfileRegistryURL cdqInfo) m0 True False (Token cdqInfo) = Inr m'"
    using result dir sc scanned(2) unfolding paths by (simp add: searchEntry_def)
  have b: "devfileBytes = (case devfileMapFromRepo m0 context of None \<Rightarrow> [] | Some b \<Rightarrow> b)"
    unfolding bytes deleted by simp
  have d: "dockerfileContextMapFromRepo m0 context = None"
    unfolding deleted by simp
  show ?thesis
  proof (cases "SearchForDockerfile env devfileBytes (Token cdqInfo)")
    case (Inl e)
    with a b AnalyzePath_devfile_error[of env m0 "context" "Token cdqInfo" e] show ?thesis by simp
  next
    case (Inr r)
    show ?thesis
    proof (cases r)
      case (Some img)
      with Inr a b d AnalyzePath_devfile_declared[of env m0 "context" "Token cdqInfo" img] show ?thesis
        by (auto split: if_splits)
    next
      case None
      with Inr b have u: "SearchForDockerfile env (case devfileMapFromRepo m0 context of None \<Rightarrow> [] | Some b \<Rightarrow> b)
          (Token cdqInfo) = Inr None" by simp
      from AnalyzePath_devfile_undeclared[OF u] a obtain dk2 where
        w: "analyzeWithAlizer env curPath context (DevfileRegistryURL cdqInfo) m0 True False (Token cdqInfo) = Inr (m', dk2)"
        by (auto split: sum.splits prod.splits)
      from analyzeWithAlizer_dockerfile[OF w] d a Inr None show ?thesis
        by (auto split: sum.splits prod.splits)
    qed
  qed
qed

lemma analyzeDevfile_other:
  "analyzeDevfile env c m dv dk t = Inr (m1, dk1) \<Longrightarrow> k \<noteq> c \<Longrightarrow>
     dockerfileContextMapFromRepo m1 k = dockerfileContextMapFromRepo m k"
  by (auto simp: analyzeDevfile_def Let_def split: if_splits sum.splits option.splits)

lemma analyzeWithAlizer_other:
  "analyzeWithAlizer env lp c reg m dv dk t = Inr (m2, dk2) \<Longrightarrow> k \<noteq> c \<Longrightarrow>
     dockerfileContextMapFromRepo m2 k = dockerfileContextMapFromRepo m k \<and>
     devfileMapFromRepo m2 k = devfileMapFromRepo m k \<and>
     devfilesURLMapFromRepo m2 k = devfilesURLMapFromRepo m k \<and>
     componentPortsMapFromRepo m2 k = componentPortsMapFromRepo m k"
  by (auto simp: analyzeWithAlizer_def Let_def setPorts_def split: if_splits sum.splits prod.splits)

lemma AnalyzePath_other:
  assumes "AnalyzePath env lp c reg m dv dk t = Inr m'" "k \<noteq> c"
  shows "dockerfileContextMapFromRepo m' k = dockerfileContextMapFromRepo m k \<and>
     devfileMapFromRepo m' k = devfileMapFromRepo m k \<and>
     devfilesURLMapFromRepo m' k = devfilesURLMapFromRepo m k \<and>
     componentPortsMapFromRepo m' k = componentPortsMapFromRepo m k"
proof -
  from assms obtain m1 dk1 m2 dk2 where
    a: "analyzeDevfile env c m dv dk t = Inr (m1, dk1)" and
    b: "analyzeWithAlizer env lp c reg m1 dv dk1 t = Inr (m2, dk2)" and
    c: "m' = detectPorts env lp c reg m2 dv dk2"
    by (auto simp: AnalyzePath_def split: sum.splits prod.splits)
  from analyzeDevfile_other[OF a assms(2)] analyzeDevfile_ports[OF a]
    analyzeWithAlizer_other[OF b assms(2)] assms(2)
  show ?thesis unfolding c
    by (simp add: detectPorts_frame detectPorts_ports setPorts_other split: sum.splits prod.splits)
qed

text \<open>
  The guard of \<open>AnalyzePath\<close> on the flag devfile present: with the flag set, the devfile
  bytes and the devfile URLs of all contexts are what they were, and only the Dockerfile and
  the ports of this context can differ. One iteration of \<open>search\<close> whose scan ended with
  the flag set keeps the devfile bytes and URLs that the scan recorded.
\<close>

lemma present_devfile_never_replaced:
  "(AnalyzePath env localpath context devfileRegistryURL m True dockerfilePresent token = Inr m' \<longrightarrow>
      devfileMapFromRepo m' = devfileMapFromRepo m \<and>
      devfilesURLMapFromRepo m' = devfilesURLMapFromRepo m \<and>
      (\<forall>k. k \<noteq> context \<longrightarrow>
         dockerfileContextMapFromRepo m' k = dockerfileContextMapFromRepo m k \<and>
         componentPortsMapFromRepo m' k = componentPortsMapFromRepo m k)) \<and>
   (IsDir f \<longrightarrow> scanContext env cdqInfo root srcContext f m0 = Inr st \<longrightarrow>
    isDevfilePresent st \<longrightarrow> searchEntry env cdqInfo root srcContext f m0 = Inr r \<longrightarrow>
      devfileMapFromRepo r = devfileMapFromRepo (M st) \<and>
      devfilesURLMapFromRepo r = devfilesURLMapFromRepo (M st))"
proof (intro conjI impI)
  assume ok: "AnalyzePath env localpath context devfileRegistryURL m True dockerfilePresent token = Inr m'"
  from AnalyzePath_devfile_frame[OF ok] AnalyzePath_other[OF ok]
  show "devfileMapFromRepo m' = devfileMapFromRepo m"
    and "devfilesURLMapFromRepo m' = devfilesURLMapFromRepo m"
    and "\<forall>k. k \<noteq> context \<longrightarrow>
         dockerfileContextMapFromRepo m' k = dockerfileContextMapFromRepo m k \<and>
         componentPortsMapFromRepo m' k = componentPortsMapFromRepo m k"
    by simp_all
next
  assume dir: "IsDir f"
    and sc: "scanContext env cdqInfo root srcContext f m0 = Inr st" and dv: "isDevfilePresent st"
    and se: "searchEntry env cdqInfo root srcContext f m0 = Inr r"
  have "r = M st \<or>
      AnalyzePath env (pathJoin [root, Name f]) (pathJoin [srcContext, Name f])
        (DevfileRegistryURL cdqInfo) (M st) True (isDockerfilePresent st) (Token cdqInfo) = Inr r"
    using dir sc dv se by (auto simp: searchEntry_def split: if_splits)
  then show "devfileMapFromRepo r = devfileMapFromRepo (M st)"
    and "devfilesURLMapFromRepo r = devfilesURLMapFromRepo (M st)"
    using AnalyzePath_devfile_frame by blast+
qed

section \<open>Properties of the scan\<close>

lemma scanHiddenDir_append:
  "scanHiddenDir env q ctx hp (xs @ ys) st =
     (case scanHiddenDir env q ctx hp xs st of Inl e \<Rightarrow> Inl e
      | Inr st' \<Rightarrow> scanHiddenDir env q ctx hp ys st')"
  by (induction xs arbitrary: st) (auto split: sum.splits)

lemma scanFiles_append:
  "scanFiles env q cur ctx (xs @ ys) st =
     (case scanFiles env q cur ctx xs st of Inl e \<Rightarrow> Inl e
      | Inr st' \<Rightarrow> scanFiles env q cur ctx ys st')"
  by (induction xs arbitrary: st) (auto split: sum.splits)

lemma searchLoop_append:
  "searchLoop env q lp sc (xs @ ys) m =
     (case searchLoop env q lp sc xs m of Inl e \<Rightarrow> Inl e
      | Inr m' \<Rightarrow> searchLoop env q lp sc ys m')"
  by (induction xs arbitrary: m) (auto split: sum.splits)

lemma sameElsewhere_refl: "sameElsewhere c m m"
  by (simp add: sameElsewhere_def)

lemma sameElsewhere_trans: "sameElsewhere c m m1 \<Longrightarrow> sameElsewhere c m1 m2 \<Longrightarrow> sameElsewhere c m m2"
  by (simp add: sameElsewhere_def)

lemma recordDevfile_elsewhere:
  "recordDevfile env q ctx p l st = Inr st' \<Longrightarrow> sameElsewhere ctx (M st) (M st')"
  by (auto simp: recordDevfile_def sameElsewhere_def contextEntries_def
      split: sum.splits prod.splits if_splits)

lemma scanHiddenDir_elsewhere:
  "scanHiddenDir env q ctx hp hs st = Inr st' \<Longrightarrow> sameElsewhere ctx (M st) (M st')"
proof (induction hs arbitrary: st)
  case Nil
  then show ?case by (simp add: sameElsewhere_refl)
next
  case (Cons h hs)
  show ?case
  proof (cases "isDevfileName (ToLower (Name h))")
    case False
    with Cons show ?thesis by simp
  next
    case True
    with Cons.prems obtain st1 where a: "recordDevfile env q ctx (pathJoin [hp, Name h])
        (pathJoin [ctx, HiddenDevfileDir, Name h]) st = Inr st1"
      and b: "scanHiddenDir env q ctx hp hs st1 = Inr st'"
      by (auto split: sum.splits)
    from recordDevfile_elsewhere[OF a] Cons.IH[OF b] show ?thesis
      by (rule sameElsewhere_trans)
  qed
qed

lemma scanDockerDir_elsewhere:
  "sameElsewhere ctx (M st) (M (scanDockerDir ctx d fs st))"
proof (induction fs arbitrary: st)
  case Nil
  then show ?case by (simp add: sameElsewhere_refl)
next
  case (Cons f fs)
  show ?case
  proof (cases "ToLower (Name f) = ToLower DockerfileName \<or> ToLower (Name f) = ToLower ContainerfileName")
    case False
    with Cons show ?thesis by simp
  next
    case True
    let ?st1 = "st\<lparr>M := (M st)\<lparr>dockerfileContextMapFromRepo :=
                     (dockerfileContextMapFromRepo (M st))(ctx \<mapsto> pathJoin [d, Name f])\<rparr>,
                 isDockerfilePresent := True\<rparr>"
    have "sameElsewhere ctx (M st) (M ?st1)"
      by (simp add: sameElsewhere_def contextEntries_def)
    from this Cons.IH[of ?st1] have "sameElsewhere ctx (M st) (M (scanDockerDir ctx d fs ?st1))"
      by (rule sameElsewhere_trans)
    with True show ?thesis by simp
  qed
qed

lemma scanEntry_elsewhere:
  "scanEntry env q cur ctx g st = Inr st' \<Longrightarrow> sameElsewhere ctx (M st) (M st')"
  unfolding scanEntry_def
  by (auto simp: sameElsewhere_refl scanDockerDir_elsewhere split: if_splits sum.splits
      dest: recordDevfile_elsewhere scanHiddenDir_elsewhere)
     (simp_all add: sameElsewhere_def contextEntries_def)

lemma scanFiles_elsewhere:
  "scanFiles env q cur ctx fs st = Inr st' \<Longrightarrow> sameElsewhere ctx (M st) (M st')"
proof (induction fs arbitrary: st)
  case Nil
  then show ?case by (simp add: sameElsewhere_refl)
next
  case (Cons g fs)
  from Cons.prems obtain st1 where a: "scanEntry env q cur ctx g st = Inr st1"
    and b: "scanFiles env q cur ctx fs st1 = Inr st'"
    by (auto split: sum.splits)
  from scanEntry_elsewhere[OF a] Cons.IH[OF b] show ?case by (rule sameElsewhere_trans)
qed

lemma scanContext_elsewhere:
  assumes "scanContext env q lp sc f m = Inr st"
  shows "sameElsewhere (pathJoin [sc, Name f]) m (M st)"
proof -
  from assms obtain files st0 where
    a: "scanFiles env q (pathJoin [lp, Name f]) (pathJoin [sc, Name f]) files
          \<lparr>M = m, isDevfilePresent = False, isDockerfilePresent = False\<rparr> = Inr st0"
    and b: "st = unsetDockerfile (pathJoin [sc, Name f]) st0"
    by (auto simp: scanContext_def split: sum.splits)
  have "sameElsewhere (pathJoin [sc, Name f]) (M st0) (M st)"
    unfolding b by (simp add: unsetDockerfile_def sameElsewhere_def contextEntries_def)
  with scanFiles_elsewhere[OF a] show ?thesis
    by (auto intro: sameElsewhere_trans)
qed

lemma AnalyzePath_elsewhere:
  "AnalyzePath env lp c reg m dv dk t = Inr m' \<Longrightarrow> sameElsewhere c m m'"
  by (auto simp: sameElsewhere_def contextEntries_def dest: AnalyzePath_other)

lemma searchEntry_elsewhere:
  assumes "searchEntry env q lp sc f m = Inr m'" "IsDir f"
  shows "sameElsewhere (pathJoin [sc, Name f]) m m'"
proof -
  from assms obtain st where st: "scanContext env q lp sc f m = Inr st"
    by (auto simp: searchEntry_def split: sum.splits)
  from assms st have "m' = M st \<or>
      AnalyzePath env (pathJoin [lp, Name f]) (pathJoin [sc, Name f]) (DevfileRegistryURL q) (M st)
        (isDevfilePresent st) (isDockerfilePresent st) (Token q) = Inr m'"
    by (auto simp: searchEntry_def split: if_splits)
  then have "sameElsewhere (pathJoin [sc, Name f]) (M st) m'"
    by (auto simp: sameElsewhere_refl dest: AnalyzePath_elsewhere)
  with scanContext_elsewhere[OF st] show ?thesis by (rule sameElsewhere_trans)
qed

lemma searchEntry_other_context:
  assumes "searchEntry env q lp sc f m = Inr m'" "IsDir f \<longrightarrow> pathJoin [sc, Name f] \<noteq> k"
  shows "contextEntries m' k = contextEntries m k"
proof (cases "IsDir f")
  case True
  with searchEntry_elsewhere[OF assms(1)] assms(2) show ?thesis by (simp add: sameElsewhere_def)
next
  case False
  with assms(1) show ?thesis by (simp add: searchEntry_def)
qed

lemma searchLoop_other_contexts:
  "searchLoop env q lp sc fs m = Inr r \<Longrightarrow>
   \<forall>f \<in> set fs. IsDir f \<longrightarrow> pathJoin [sc, Name f] \<noteq> k \<Longrightarrow>
   contextEntries r k = contextEntries m k"
proof (induction fs arbitrary: m)
  case Nil
  then show ?case by simp
next
  case (Cons f fs)
  from Cons.prems(1) obtain m1 where a: "searchEntry env q lp sc f m = Inr m1"
    and b: "searchLoop env q lp sc fs m1 = Inr r"
    by (auto split: sum.splits)
  from Cons.prems(2) have "contextEntries m1 k = contextEntries m k"
    by (intro searchEntry_other_context[OF a]) simp
  moreover from Cons.prems(2) have "contextEntries r k = contextEntries m1 k"
    by (intro Cons.IH[OF b]) simp
  ultimately show ?case by simp
qed

lemma search_at_context:
  assumes root: "ReadDir env lp = Inr (pre @ f # post)"
    and dir: "IsDir f"
    and unique: "\<forall>f' \<in> set pre \<union> set post. IsDir f' \<longrightarrow> pathJoin [sc, Name f'] \<noteq> pathJoin [sc, Name f]"
    and result: "search env lp sc q = Inr r"
  shows "\<exists>m m'. searchLoop env q lp sc pre emptyMaps = Inr m \<and>
           contextEntries m (pathJoin [sc, Name f]) = (None, None, None, None) \<and>
           searchEntry env q lp sc f m = Inr m' \<and>
           contextEntries r (pathJoin [sc, Name f]) = contextEntries m' (pathJoin [sc, Name f])"
proof -
  from result root obtain m m' where
    a: "searchLoop env q lp sc pre emptyMaps = Inr m"
    and b: "searchEntry env q lp sc f m = Inr m'"
    and c: "searchLoop env q lp sc post m' = Inr r"
    by (auto simp: search_def searchLoop_append split: sum.splits)
  from unique have "contextEntries m (pathJoin [sc, Name f]) = contextEntries emptyMaps (pathJoin [sc, Name f])"
    by (intro searchLoop_other_contexts[OF a]) simp
  then have "contextEntries m (pathJoin [sc, Name f]) = (None, None, None, None)"
    by (simp add: contextEntries_def emptyMaps_def)
  moreover from unique have "contextEntries r (pathJoin [sc, Name f]) = contextEntries m' (pathJoin [sc, Name f])"
    by (intro searchLoop_other_contexts[OF c]) simp
  ultimately show ?thesis using a b by blast
qed

text \<open>
  C2, as amended: a context \<open>f\<close> of the root, with a context key of its own, whose scan ends
  with both flags set: a valid devfile and a Dockerfile were found (and the flag devfile
  present was not reset by an ignored devfile read after the valid one). The Dockerfile
  entry recorded by the scan is deleted and \<open>AnalyzePath\<close> runs on the maps without it,
  with devfile present and Dockerfile absent. In the result of \<open>search\<close> the Dockerfile
  entry of the context is then the absolute URI that the devfile declares, or, when the
  devfile declares none, the link to the Dockerfile of the registry sample that Alizer
  matched; it is absent when the devfile declares a relative URI or nothing is matched.
\<close>

theorem manifest_and_dockerfile_entry_replaced:
  assumes root: "ReadDir env localpath = Inr (pre @ f # post)" "IsDir f"
    and paths: "curPath = pathJoin [localpath, Name f]" "context = pathJoin [srcContext, Name f]"
    and unique: "\<forall>f' \<in> set pre \<union> set post. IsDir f' \<longrightarrow> pathJoin [srcContext, Name f'] \<noteq> context"
    and result: "search env localpath srcContext cdqInfo = Inr r"
    and before: "searchLoop env cdqInfo localpath srcContext pre emptyMaps = Inr m"
    and listing: "ReadDir env curPath = Inr files"
    and scanned: "scanFiles env cdqInfo curPath context files
                    \<lparr>M = m, isDevfilePresent = False, isDockerfilePresent = False\<rparr> = Inr st"
      "isDevfilePresent st" "isDockerfilePresent st"
    and deleted: "m0 = (M st)\<lparr>dockerfileContextMapFromRepo :=
                              (dockerfileContextMapFromRepo (M st))(context := None)\<rparr>"
    and bytes: "devfileBytes = (case devfileMapFromRepo (M st) context of None \<Rightarrow> [] | Some b \<Rightarrow> b)"
  shows "(\<exists>m'. AnalyzePath env curPath context (DevfileRegistryURL cdqInfo) m0 True False (Token cdqInfo) = Inr m' \<and>
            contextEntries r context = contextEntries m' context) \<and>
         (case SearchForDockerfile env devfileBytes (Token cdqInfo) of
            Inl e \<Rightarrow> False
          | Inr (Some dockerfileImage) \<Rightarrow>
              dockerfileContextMapFromRepo r context =
                (if prefix ''http'' (Uri dockerfileImage) then Some (Uri dockerfileImage) else None)
          | Inr None \<Rightarrow>
              (case AnalyzeAndDetectDevfile env curPath (DevfileRegistryURL cdqInfo) of
                 Inl e \<Rightarrow> dockerfileContextMapFromRepo r context = None
               | Inr (b, u, sampleName, p) \<Rightarrow>
                   (\<exists>sampleRepoURL img link.
                      GetRepoFromRegistry env sampleName (DevfileRegistryURL cdqInfo) = Inr sampleRepoURL \<and>
                      SearchForDockerfile env b (Token cdqInfo) = Inr img \<and>
                      UpdateGitLink env sampleRepoURL []
                        (case img of None \<Rightarrow> [] | Some i \<Rightarrow> Uri i) = Inr link \<and>
                      dockerfileContextMapFromRepo r context = Some link)))"
proof -
  from search_at_context[OF root(1) root(2) unique[unfolded paths] result] before
  obtain m' where s: "searchEntry env cdqInfo localpath srcContext f m = Inr m'"
    and e: "contextEntries r context = contextEntries m' context"
    unfolding paths by auto
  from e have d: "dockerfileContextMapFromRepo r context = dockerfileContextMapFromRepo m' context"
    by (simp add: contextEntries_def)
  note t = searchEntry_manifest_and_dockerfile[OF root(2) paths listing scanned deleted bytes s]
  show ?thesis
    using t e unfolding d by blast
qed


lemma recordDevfile_invalid:
  "ValidateDevfile env p (Token q) = Inl e \<Longrightarrow> \<exists>e'. recordDevfile env q ctx p l st = Inl e'"
  by (simp add: recordDevfile_def split: sum.splits)

lemma recordDevfile_invalid_reached:
  "UpdateGitLink env (RepoURL q) (Revision q) l = Inr link \<Longrightarrow>
   ValidateDevfile env p (Token q) = Inl e \<Longrightarrow>
   recordDevfile env q ctx p l st = Inl (InvalidDevfile e)"
  by (simp add: recordDevfile_def)

lemma scanHiddenDir_invalid:
  assumes "isDevfileName (ToLower (Name h))"
    and "ValidateDevfile env (pathJoin [hp, Name h]) (Token q) = Inl e"
  shows "\<exists>e'. scanHiddenDir env q ctx hp (hpre @ h # hpost) st = Inl e'"
proof (cases "scanHiddenDir env q ctx hp hpre st")
  case (Inl a)
  then show ?thesis by (simp add: scanHiddenDir_append)
next
  case (Inr st')
  from recordDevfile_invalid[OF assms(2)] obtain e' where
    "recordDevfile env q ctx (pathJoin [hp, Name h]) (pathJoin [ctx, HiddenDevfileDir, Name h]) st' = Inl e'"
    by blast
  with Inr assms(1) show ?thesis by (simp add: scanHiddenDir_append)
qed

lemma scanHiddenDir_invalid_reached:
  assumes "isDevfileName (ToLower (Name h))"
    and "scanHiddenDir env q ctx hp hpre st = Inr st'"
    and "UpdateGitLink env (RepoURL q) (Revision q) (pathJoin [ctx, HiddenDevfileDir, Name h]) = Inr link"
    and "ValidateDevfile env (pathJoin [hp, Name h]) (Token q) = Inl e"
  shows "scanHiddenDir env q ctx hp (hpre @ h # hpost) st = Inl (InvalidDevfile e)"
  using assms by (simp add: scanHiddenDir_append recordDevfile_invalid_reached)

lemma scanEntry_flat_invalid:
  assumes "isDevfileName (ToLower (Name g))"
    and "ValidateDevfile env (pathJoin [cur, Name g]) (Token q) = Inl e"
  shows "\<exists>e'. scanEntry env q cur ctx g st = Inl e'"
  using assms recordDevfile_invalid[OF assms(2)] by (simp add: scanEntry_def)

lemma scanEntry_hidden_invalid:
  assumes "\<not> isDevfileName (ToLower (Name g))" "IsDir g" "Name g = HiddenDevfileDir"
    and "ReadDir env (pathJoin [cur, HiddenDevfileDir]) = Inr (hpre @ h # hpost)"
    and "isDevfileName (ToLower (Name h))"
    and "ValidateDevfile env (pathJoin [pathJoin [cur, HiddenDevfileDir], Name h]) (Token q) = Inl e"
  shows "\<exists>e'. scanEntry env q cur ctx g st = Inl e'"
  using assms scanHiddenDir_invalid[OF assms(5,6)] by (simp add: scanEntry_def)

lemma scanFiles_entry_fails:
  assumes "\<And>st. \<exists>e'. scanEntry env q cur ctx g st = Inl e'"
  shows "\<exists>e'. scanFiles env q cur ctx (fpre @ g # fpost) st = Inl e'"
proof (cases "scanFiles env q cur ctx fpre st")
  case (Inl a)
  then show ?thesis by (simp add: scanFiles_append)
next
  case (Inr st')
  from assms obtain e' where "scanEntry env q cur ctx g st' = Inl e'" by blast
  with Inr show ?thesis by (simp add: scanFiles_append)
qed

lemma searchLoop_entry_fails:
  assumes "\<And>m. \<exists>e'. searchEntry env q lp sc f m = Inl e'"
  shows "\<exists>e'. searchLoop env q lp sc (pre @ f # post) m = Inl e'"
proof (cases "searchLoop env q lp sc pre m")
  case (Inl a)
  then show ?thesis by (simp add: searchLoop_append)
next
  case (Inr m')
  from assms obtain e' where "searchEntry env q lp sc f m' = Inl e'" by blast
  with Inr show ?thesis by (simp add: searchLoop_append)
qed

lemma searchEntry_scan_fails:
  assumes "IsDir f" "ReadDir env (pathJoin [lp, Name f]) = Inr (fpre @ g # fpost)"
    and "\<And>st. \<exists>e'. scanEntry env q (pathJoin [lp, Name f]) (pathJoin [sc, Name f]) g st = Inl e'"
  shows "\<exists>e'. searchEntry env q lp sc f m = Inl e'"
proof -
  from scanFiles_entry_fails[OF assms(3)] obtain e' where
    "scanFiles env q (pathJoin [lp, Name f]) (pathJoin [sc, Name f]) (fpre @ g # fpost)
       \<lparr>M = m, isDevfilePresent = False, isDockerfilePresent = False\<rparr> = Inl e'" by blast
  with assms(1,2) show ?thesis by (simp add: searchEntry_def scanContext_def)
qed

lemma searchEntry_scan_fails_reached:
  assumes "IsDir f" "ReadDir env (pathJoin [lp, Name f]) = Inr (fpre @ g # fpost)"
    and "scanFiles env q (pathJoin [lp, Name f]) (pathJoin [sc, Name f]) fpre
           \<lparr>M = m, isDevfilePresent = False, isDockerfilePresent = False\<rparr> = Inr st"
    and "scanEntry env q (pathJoin [lp, Name f]) (pathJoin [sc, Name f]) g st = Inl e"
  shows "searchEntry env q lp sc f m = Inl e"
  using assms by (simp add: searchEntry_def scanContext_def scanFiles_append)

text \<open>
  C1: a context \<open>f\<close> of the root holds a file with a manifest name, in the context itself (the
  entry \<open>g\<close>) or in its hidden devfile directory (then \<open>g\<close> is that directory and \<open>h\<close> the
  file), that \<open>ValidateDevfile\<close> rejects with \<open>e\<close>. Then \<open>search\<close> returns an error and no
  maps, whatever the other contexts hold; and when the scan gets as far as this manifest
  (the contexts \<open>pre\<close>, the files \<open>fpre\<close> and, in the hidden directory, the files \<open>hpre\<close>
  listed before it were processed without error, and its link was built), the error is
  \<open>InvalidDevfile e\<close>.
\<close>

theorem invalid_manifest_aborts_search:
  assumes root: "ReadDir env localpath = Inr (pre @ f # post)" "IsDir f"
    and cur: "curPath = pathJoin [localpath, Name f]" "context = pathJoin [srcContext, Name f]"
    and listing: "ReadDir env curPath = Inr (fpre @ g # fpost)"
    and manifest:
      "(isDevfileName (ToLower (Name g)) \<and> devfilePath = pathJoin [curPath, Name g] \<and>
          linkPath = pathJoin [context, Name g]) \<or>
       (\<not> isDevfileName (ToLower (Name g)) \<and> IsDir g \<and> Name g = HiddenDevfileDir \<and>
          ReadDir env (pathJoin [curPath, HiddenDevfileDir]) = Inr (hpre @ h # hpost) \<and>
          isDevfileName (ToLower (Name h)) \<and>
          devfilePath = pathJoin [pathJoin [curPath, HiddenDevfileDir], Name h] \<and>
          linkPath = pathJoin [context, HiddenDevfileDir, Name h])"
    and invalid: "ValidateDevfile env devfilePath (Token cdqInfo) = Inl e"
  shows "(\<exists>e'. search env localpath srcContext cdqInfo = Inl e') \<and>
         (searchLoop env cdqInfo localpath srcContext pre emptyMaps = Inr m1 \<longrightarrow>
          scanFiles env cdqInfo curPath context fpre
            \<lparr>M = m1, isDevfilePresent = False, isDockerfilePresent = False\<rparr> = Inr st1 \<longrightarrow>
          scanHiddenDir env cdqInfo context (pathJoin [curPath, HiddenDevfileDir]) hpre st1 = Inr st2 \<longrightarrow>
          UpdateGitLink env (RepoURL cdqInfo) (Revision cdqInfo) linkPath = Inr updatedLink \<longrightarrow>
          search env localpath srcContext cdqInfo = Inl (InvalidDevfile e))"
proof
  have "\<And>st. \<exists>e'. scanEntry env cdqInfo curPath context g st = Inl e'"
    using manifest invalid scanEntry_flat_invalid scanEntry_hidden_invalid by metis
  then have "\<And>m. \<exists>e'. searchEntry env cdqInfo localpath srcContext f m = Inl e'"
    using searchEntry_scan_fails root(2) listing unfolding cur by metis
  from searchLoop_entry_fails[OF this]
  show "\<exists>e'. search env localpath srcContext cdqInfo = Inl e'"
    using root(1) by (simp add: search_def)
next
  show "searchLoop env cdqInfo localpath srcContext pre emptyMaps = Inr m1 \<longrightarrow>
          scanFiles env cdqInfo curPath context fpre
            \<lparr>M = m1, isDevfilePresent = False, isDockerfilePresent = False\<rparr> = Inr st1 \<longrightarrow>
          scanHiddenDir env cdqInfo context (pathJoin [curPath, HiddenDevfileDir]) hpre st1 = Inr st2 \<longrightarrow>
          UpdateGitLink env (RepoURL cdqInfo) (Revision cdqInfo) linkPath = Inr updatedLink \<longrightarrow>
          search env localpath srcContext cdqInfo = Inl (InvalidDevfile e)"
  proof (intro impI)
    assume p: "searchLoop env cdqInfo localpath srcContext pre emptyMaps = Inr m1"
      and s: "scanFiles env cdqInfo curPath context fpre
            \<lparr>M = m1, isDevfilePresent = False, isDockerfilePresent = False\<rparr> = Inr st1"
      and hd: "scanHiddenDir env cdqInfo context (pathJoin [curPath, HiddenDevfileDir]) hpre st1 = Inr st2"
      and l: "UpdateGitLink env (RepoURL cdqInfo) (Revision cdqInfo) linkPath = Inr updatedLink"
    have "scanEntry env cdqInfo curPath context g st1 = Inl (InvalidDevfile e)"
      using manifest
    proof
      assume "isDevfileName (ToLower (Name g)) \<and> devfilePath = pathJoin [curPath, Name g] \<and>
          linkPath = pathJoin [context, Name g]"
      with l invalid show ?thesis
        by (simp add: scanEntry_def recordDevfile_invalid_reached)
    next
      assume a: "\<not> isDevfileName (ToLower (Name g)) \<and> IsDir g \<and> Name g = HiddenDevfileDir \<and>
          ReadDir env (pathJoin [curPath, HiddenDevfileDir]) = Inr (hpre @ h # hpost) \<and>
          isDevfileName (ToLower (Name h)) \<and>
          devfilePath = pathJoin [pathJoin [curPath, HiddenDevfileDir], Name h] \<and>
          linkPath = pathJoin [context, HiddenDevfileDir, Name h]"
      then have "scanHiddenDir env cdqInfo context (pathJoin [curPath, HiddenDevfileDir]) (hpre @ h # hpost) st1
          = Inl (InvalidDevfile e)"
        using scanHiddenDir_invalid_reached[OF _ hd] l invalid by simp
      moreover from a have "\<not> isDevfileName (ToLower (Name g))" "IsDir g" "Name g = HiddenDevfileDir"
        "ReadDir env (pathJoin [curPath, HiddenDevfileDir]) = Inr (hpre @ h # hpost)" by blast+
      ultimately show ?thesis by (simp add: scanEntry_def)
    qed
    then have "searchEntry env cdqInfo localpath srcContext f m1 = Inl (InvalidDevfile e)"
      using searchEntry_scan_fails_reached root(2) listing s unfolding cur by metis
    with p root(1) show "search env localpath srcContext cdqInfo = Inl (InvalidDevfile e)"
      by (simp add: search_def searchLoop_append)
  qed
qed

lemma AnalyzeAndDetectDevfile_no_components:
  "getAlizerDevfileTypes env reg = Inr tys \<Longrightarrow> DetectComponents env path = Inr [] \<Longrightarrow>
   AnalyzeAndDetectDevfile env path reg = Inl (NoDevfileFound path)"
  by (simp add: AnalyzeAndDetectDevfile_def)

lemma AnalyzePath_nothing_detected:
  assumes "AnalyzeAndDetectDevfile env lp reg = Inl (NoDevfileFound loc)"
    and "dv \<longrightarrow> SearchForDockerfile env (case devfileMapFromRepo m c of None \<Rightarrow> [] | Some b \<Rightarrow> b) t = Inr None"
  shows "AnalyzePath env lp c reg m dv False t = Inr m"
  using assms
  by (simp add: AnalyzePath_def analyzeDevfile_def analyzeWithAlizer_def detectPorts_def)

text \<open>
  C3: the scan of a context \<open>f\<close> ended without a Dockerfile (and a devfile, if present,
  declares none), the registry types were read and Alizer detects no component. Then
  \<open>AnalyzeAndDetectDevfile\<close> fails with \<open>NoDevfileFound\<close>, \<open>AnalyzePath\<close> drops that error
  and returns the maps unchanged, so the context keeps exactly what the scan recorded, and
  the loop of \<open>search\<close> goes on with the remaining contexts.
\<close>

theorem no_components_is_soft_failure:
  assumes dir: "IsDir f"
    and paths: "curPath = pathJoin [localpath, Name f]" "context = pathJoin [srcContext, Name f]"
    and scanned: "scanContext env cdqInfo localpath srcContext f m = Inr st"
      "\<not> isDockerfilePresent st"
    and declared: "isDevfilePresent st \<longrightarrow>
       SearchForDockerfile env
         (case devfileMapFromRepo (M st) context of None \<Rightarrow> [] | Some b \<Rightarrow> b)
         (Token cdqInfo) = Inr None"
    and types: "getAlizerDevfileTypes env (DevfileRegistryURL cdqInfo) = Inr alizerDevfileTypes"
    and none: "DetectComponents env curPath = Inr []"
  shows "AnalyzeAndDetectDevfile env curPath (DevfileRegistryURL cdqInfo) = Inl (NoDevfileFound curPath) \<and>
         AnalyzePath env curPath context (DevfileRegistryURL cdqInfo) (M st) (isDevfilePresent st)
           (isDockerfilePresent st) (Token cdqInfo) = Inr (M st) \<and>
         searchEntry env cdqInfo localpath srcContext f m = Inr (M st) \<and>
         searchLoop env cdqInfo localpath srcContext (f # rest) m =
           searchLoop env cdqInfo localpath srcContext rest (M st)"
proof -
  have a: "AnalyzeAndDetectDevfile env curPath (DevfileRegistryURL cdqInfo) = Inl (NoDevfileFound curPath)"
    using types none by (rule AnalyzeAndDetectDevfile_no_components)
  have b: "AnalyzePath env curPath context (DevfileRegistryURL cdqInfo) (M st) (isDevfilePresent st)
           False (Token cdqInfo) = Inr (M st)"
    using a declared by (rule AnalyzePath_nothing_detected)
  have c: "searchEntry env cdqInfo localpath srcContext f m = Inr (M st)"
    using dir scanned b unfolding paths by (simp add: searchEntry_def)
  show ?thesis using a b c scanned(2) by simp
qed

lemma AnalyzePath_False_True:
  "AnalyzePath env lp c reg m False True t = Inr (detectPorts env lp c reg m False True)"
  by (simp add: AnalyzePath_def analyzeDevfile_def analyzeWithAlizer_def)

text \<open>
  C4, as amended: called with no devfile and a Dockerfile present, \<open>AnalyzePath\<close> asks Alizer
  for the ports only: it succeeds, the devfile, URL and Dockerfile maps are unchanged, and
  the port entry of the context is the detected list when that is neither nil nor empty.
  \<open>search\<close> itself does not call \<open>AnalyzePath\<close> for a context whose scan ended with a
  Dockerfile and no devfile: the maps of the scan are the result for that context.
\<close>

theorem dockerfile_only_ports:
  "(\<exists>m'. AnalyzePath env localpath context devfileRegistryURL m False True token = Inr m' \<and>
      devfileMapFromRepo m' = devfileMapFromRepo m \<and>
      devfilesURLMapFromRepo m' = devfilesURLMapFromRepo m \<and>
      dockerfileContextMapFromRepo m' = dockerfileContextMapFromRepo m \<and>
      (\<forall>k. k \<noteq> context \<longrightarrow> componentPortsMapFromRepo m' k = componentPortsMapFromRepo m k) \<and>
      componentPortsMapFromRepo m' context =
        (case AnalyzeAndDetectDevfile env localpath devfileRegistryURL of
           Inl e \<Rightarrow> componentPortsMapFromRepo m context
         | Inr (b, u, s, detectedPorts) \<Rightarrow>
             (case detectedPorts of
                None \<Rightarrow> componentPortsMapFromRepo m context
              | Some ps \<Rightarrow> if ps = [] then componentPortsMapFromRepo m context else Some ps))) \<and>
   (IsDir f \<longrightarrow> scanContext env cdqInfo root srcContext f m0 = Inr st \<longrightarrow>
      \<not> isDevfilePresent st \<longrightarrow> isDockerfilePresent st \<longrightarrow>
      searchEntry env cdqInfo root srcContext f m0 = Inr (M st))"
proof
  let ?m' = "detectPorts env localpath context devfileRegistryURL m False True"
  have "componentPortsMapFromRepo ?m' context =
        (case AnalyzeAndDetectDevfile env localpath devfileRegistryURL of
           Inl e \<Rightarrow> componentPortsMapFromRepo m context
         | Inr (b, u, s, detectedPorts) \<Rightarrow>
             (case detectedPorts of
                None \<Rightarrow> componentPortsMapFromRepo m context
              | Some ps \<Rightarrow> if ps = [] then componentPortsMapFromRepo m context else Some ps))"
    by (simp add: detectPorts_def setPorts_at split: sum.splits prod.splits)
  moreover have "\<forall>k. k \<noteq> context \<longrightarrow> componentPortsMapFromRepo ?m' k = componentPortsMapFromRepo m k"
    by (simp add: detectPorts_def setPorts_other split: sum.splits prod.splits)
  ultimately show "\<exists>m'. AnalyzePath env localpath context devfileRegistryURL m False True token = Inr m' \<and>
      devfileMapFromRepo m' = devfileMapFromRepo m \<and>
      devfilesURLMapFromRepo m' = devfilesURLMapFromRepo m \<and>
      dockerfileContextMapFromRepo m' = dockerfileContextMapFromRepo m \<and>
      (\<forall>k. k \<noteq> context \<longrightarrow> componentPortsMapFromRepo m' k = componentPortsMapFromRepo m k) \<and>
      componentPortsMapFromRepo m' context =
        (case AnalyzeAndDetectDevfile env localpath devfileRegistryURL of
           Inl e \<Rightarrow> componentPortsMapFromRepo m context
         | Inr (b, u, s, detectedPorts) \<Rightarrow>
             (case detectedPorts of
                None \<Rightarrow> componentPortsMapFromRepo m context
              | Some ps \<Rightarrow> if ps = [] then componentPortsMapFromRepo m context else Some ps))"
    using AnalyzePath_False_True[of env localpath "context" devfileRegistryURL m token]
    by (simp add: detectPorts_frame)
next
  show "IsDir f \<longrightarrow> scanContext env cdqInfo root srcContext f m0 = Inr st \<longrightarrow>
      \<not> isDevfilePresent st \<longrightarrow> isDockerfilePresent st \<longrightarrow>
      searchEntry env cdqInfo root srcContext f m0 = Inr (M st)"
    by (simp add: searchEntry_def)
qed

lemma recordDevfile_keeps_ports:
  "recordDevfile env q ctx p l st = Inr st' \<Longrightarrow>
   componentPortsMapFromRepo (M st') = componentPortsMapFromRepo (M st)"
  by (auto simp: recordDevfile_def split: sum.splits prod.splits if_splits)

lemma scanHiddenDir_keeps_ports:
  "scanHiddenDir env q ctx hp hs st = Inr st' \<Longrightarrow>
   componentPortsMapFromRepo (M st') = componentPortsMapFromRepo (M st)"
proof (induction hs arbitrary: st)
  case Nil
  then show ?case by simp
next
  case (Cons h hs)
  then show ?case
    by (auto split: if_splits sum.splits dest: recordDevfile_keeps_ports)
qed

lemma scanDockerDir_keeps_ports:
  "componentPortsMapFromRepo (M (scanDockerDir ctx d fs st)) = componentPortsMapFromRepo (M st)"
  by (induction fs arbitrary: st) simp_all

lemma scanEntry_keeps_ports:
  "scanEntry env q cur ctx g st = Inr st' \<Longrightarrow>
   componentPortsMapFromRepo (M st') = componentPortsMapFromRepo (M st)"
  by (auto simp: scanEntry_def scanDockerDir_keeps_ports split: if_splits sum.splits
      dest: recordDevfile_keeps_ports scanHiddenDir_keeps_ports)

lemma scanFiles_keeps_ports:
  "scanFiles env q cur ctx fs st = Inr st' \<Longrightarrow>
   componentPortsMapFromRepo (M st') = componentPortsMapFromRepo (M st)"
proof (induction fs arbitrary: st)
  case Nil
  then show ?case by simp
next
  case (Cons g fs)
  then show ?case
    by (auto split: sum.splits dest: scanEntry_keeps_ports)
qed

lemma scanContext_keeps_ports:
  "scanContext env q lp sc f m = Inr st \<Longrightarrow>
   componentPortsMapFromRepo (M st) = componentPortsMapFromRepo m"
  by (auto simp: scanContext_def unsetDockerfile_def split: sum.splits dest: scanFiles_keeps_ports)

lemma searchEntry_portsDetected:
  assumes "searchEntry env q lp sc f m = Inr m'" "portsDetected env q lp sc done m"
  shows "portsDetected env q lp sc (f # done) m'"
proof (cases "IsDir f")
  case False
  with assms show ?thesis by (auto simp: searchEntry_def portsDetected_def)
next
  case True
  from assms(1) True obtain st where st: "scanContext env q lp sc f m = Inr st"
    by (auto simp: searchEntry_def split: sum.splits)
  note p = scanContext_keeps_ports[OF st]
  show ?thesis
  proof (cases "(\<not> isDevfilePresent st \<and> \<not> isDockerfilePresent st) \<or>
                 (isDevfilePresent st \<and> \<not> isDockerfilePresent st)")
    case False
    with assms(1) True st have "m' = M st" by (auto simp: searchEntry_def)
    with p assms(2) show ?thesis by (auto simp: portsDetected_def)
  next
    case c: True
    with assms(1) True st have a: "AnalyzePath env (pathJoin [lp, Name f]) (pathJoin [sc, Name f])
        (DevfileRegistryURL q) (M st) (isDevfilePresent st) (isDockerfilePresent st) (Token q) = Inr m'"
      by (auto simp: searchEntry_def)
    note ap = AnalyzePath_ports[OF a]
    show ?thesis
      unfolding portsDetected_def
    proof (intro allI impI)
      fix k ps
      assume e: "componentPortsMapFromRepo m' k = Some ps"
      show "ps \<noteq> [] \<and>
        (\<exists>f' \<in> set (f # done). \<exists>b u s. IsDir f' \<and> k = pathJoin [sc, Name f'] \<and>
           AnalyzeAndDetectDevfile env (pathJoin [lp, Name f']) (DevfileRegistryURL q) =
             Inr (b, u, s, Some ps))"
      proof (cases "componentPortsMapFromRepo m k = Some ps")
        case True
        with assms(2) show ?thesis by (auto simp: portsDetected_def)
      next
        case False
        with e ap p True[unfolded True] \<open>IsDir f\<close> show ?thesis
          by (auto simp: setPorts_def split: if_splits sum.splits prod.splits)
      qed
    qed
  qed
qed

lemma searchLoop_portsDetected:
  "searchLoop env q lp sc fs m = Inr r \<Longrightarrow> portsDetected env q lp sc done m \<Longrightarrow>
   portsDetected env q lp sc (rev fs @ done) r"
proof (induction fs arbitrary: m "done")
  case Nil
  then show ?case by simp
next
  case (Cons f fs)
  from Cons.prems(1) obtain m' where s: "searchEntry env q lp sc f m = Inr m'"
    and l: "searchLoop env q lp sc fs m' = Inr r"
    by (auto split: sum.splits)
  from Cons.IH[OF l searchEntry_portsDetected[OF s Cons.prems(2)]]
  show ?case by simp
qed

lemma search_portsDetected:
  assumes "search env lp sc q = Inr r" "ReadDir env lp = Inr files"
  shows "portsDetected env q lp sc files r"
proof -
  have "portsDetected env q lp sc [] emptyMaps"
    by (simp add: portsDetected_def emptyMaps_def)
  from searchLoop_portsDetected[OF _ this, of files r] assms
  have "portsDetected env q lp sc (rev files @ []) r" by (simp add: search_def)
  then show ?thesis by (simp add: portsDetected_def)
qed

lemma AnalyzePath_ports_iff:
  assumes ok: "AnalyzePath env localpath context devfileRegistryURL m devfilePresent dockerfilePresent token = Inr m'"
    and fresh: "componentPortsMapFromRepo m context = None"
  shows "(componentPortsMapFromRepo m' context = Some ports \<longleftrightarrow>
         (\<not> devfilePresent \<or>
          (\<not> dockerfilePresent \<and>
           SearchForDockerfile env
             (case devfileMapFromRepo m context of None \<Rightarrow> [] | Some b \<Rightarrow> b) token = Inr None)) \<and>
         (\<exists>b u s. AnalyzeAndDetectDevfile env localpath devfileRegistryURL = Inr (b, u, s, Some ports)) \<and>
         ports \<noteq> []) \<and>
      (\<forall>k. k \<noteq> context \<longrightarrow> componentPortsMapFromRepo m' k = componentPortsMapFromRepo m k)"
proof -
  note p = AnalyzePath_ports[OF ok]
  show ?thesis
  proof (cases "AnalyzeAndDetectDevfile env localpath devfileRegistryURL")
    case (Inl e)
    with p fresh show ?thesis by (simp split: if_splits)
  next
    case (Inr x)
    obtain b u s dp where x: "x = (b, u, s, dp)" by (cases x) auto
    show ?thesis
      using p fresh Inr x by (cases dp) (auto simp: setPorts_def split: if_splits)
  qed
qed

lemma search_ports_iff:
  assumes root: "ReadDir env root = Inr (pre @ f # post)" "IsDir f"
    and paths: "curPath = pathJoin [root, Name f]" "context = pathJoin [srcContext, Name f]"
    and unique: "\<forall>f' \<in> set pre \<union> set post. IsDir f' \<longrightarrow> pathJoin [srcContext, Name f'] \<noteq> context"
    and result: "search env root srcContext cdqInfo = Inr r"
  shows "\<exists>m st. searchLoop env cdqInfo root srcContext pre emptyMaps = Inr m \<and>
           scanContext env cdqInfo root srcContext f m = Inr st \<and>
           (componentPortsMapFromRepo r context = Some ports \<longleftrightarrow>
              \<not> isDockerfilePresent st \<and>
              (isDevfilePresent st \<longrightarrow>
                 SearchForDockerfile env
                   (case devfileMapFromRepo (M st) context of None \<Rightarrow> [] | Some b \<Rightarrow> b)
                   (Token cdqInfo) = Inr None) \<and>
              (\<exists>b u s. AnalyzeAndDetectDevfile env curPath (DevfileRegistryURL cdqInfo) =
                         Inr (b, u, s, Some ports)) \<and>
              ports \<noteq> [])"
proof -
  from search_at_context[OF root(1) root(2) unique[unfolded paths] result]
  obtain m m' where a: "searchLoop env cdqInfo root srcContext pre emptyMaps = Inr m"
    and n: "contextEntries m context = (None, None, None, None)"
    and s: "searchEntry env cdqInfo root srcContext f m = Inr m'"
    and e: "contextEntries r context = contextEntries m' context"
    unfolding paths by auto
  from s root(2) obtain st where st: "scanContext env cdqInfo root srcContext f m = Inr st"
    by (auto simp: searchEntry_def split: sum.splits)
  from n scanContext_keeps_ports[OF st] have fresh: "componentPortsMapFromRepo (M st) context = None"
    by (simp add: contextEntries_def)
  from e have pe: "componentPortsMapFromRepo r context = componentPortsMapFromRepo m' context"
    by (simp add: contextEntries_def)
  have "componentPortsMapFromRepo m' context = Some ports \<longleftrightarrow>
              \<not> isDockerfilePresent st \<and>
              (isDevfilePresent st \<longrightarrow>
                 SearchForDockerfile env
                   (case devfileMapFromRepo (M st) context of None \<Rightarrow> [] | Some b \<Rightarrow> b)
                   (Token cdqInfo) = Inr None) \<and>
              (\<exists>b u s. AnalyzeAndDetectDevfile env curPath (DevfileRegistryURL cdqInfo) =
                         Inr (b, u, s, Some ports)) \<and>
              ports \<noteq> []"
  proof (cases "isDockerfilePresent st")
    case True
    with s root(2) st have "m' = M st" by (simp add: searchEntry_def)
    with fresh True show ?thesis by simp
  next
    case False
    with s root(2) st have ok: "AnalyzePath env curPath context (DevfileRegistryURL cdqInfo) (M st)
        (isDevfilePresent st) False (Token cdqInfo) = Inr m'"
      unfolding paths by (auto simp: searchEntry_def split: if_splits)
    from AnalyzePath_ports_iff[OF ok fresh, of ports] False show ?thesis by auto
  qed
  with a st pe show ?thesis by auto
qed

text \<open>
  C6, as amended: in a result of \<open>search\<close>, a context \<open>f\<close> of the root with a context key of
  its own has the port entry \<open>ports\<close> if and only if its scan ended without a Dockerfile (so
  that \<open>AnalyzePath\<close> ran), its devfile, if present, declares no Dockerfile (so that
  detection ran), detection matched a registry sample and returned the port list \<open>ports\<close>,
  and that list is not empty. For every key, a port entry of the result is a non-empty list
  that detection returned for a directory with that context. For one successful
  \<open>AnalyzePath\<close> on maps without a port entry for the context, the entry is there afterwards
  if and only if detection ran and returned that non-empty list, and the other contexts keep
  their entries.
\<close>

theorem ports_recorded_iff_detected:
  "(ReadDir env root = Inr (pre @ f # post) \<longrightarrow> IsDir f \<longrightarrow>
    (\<forall>f' \<in> set pre \<union> set post. IsDir f' \<longrightarrow>
        pathJoin [srcContext, Name f'] \<noteq> pathJoin [srcContext, Name f]) \<longrightarrow>
    search env root srcContext cdqInfo = Inr r \<longrightarrow>
      (\<exists>m0 st. searchLoop env cdqInfo root srcContext pre emptyMaps = Inr m0 \<and>
         scanContext env cdqInfo root srcContext f m0 = Inr st \<and>
         (componentPortsMapFromRepo r (pathJoin [srcContext, Name f]) = Some ports \<longleftrightarrow>
            \<not> isDockerfilePresent st \<and>
            (isDevfilePresent st \<longrightarrow>
               SearchForDockerfile env
                 (case devfileMapFromRepo (M st) (pathJoin [srcContext, Name f]) of
                    None \<Rightarrow> [] | Some b \<Rightarrow> b)
                 (Token cdqInfo) = Inr None) \<and>
            (\<exists>b u s. AnalyzeAndDetectDevfile env (pathJoin [root, Name f]) (DevfileRegistryURL cdqInfo) =
                       Inr (b, u, s, Some ports)) \<and>
            ports \<noteq> []))) \<and>
   (search env root srcContext cdqInfo = Inr r \<longrightarrow> ReadDir env root = Inr files \<longrightarrow>
    componentPortsMapFromRepo r key = Some ps \<longrightarrow>
      ps \<noteq> [] \<and>
      (\<exists>f \<in> set files. \<exists>b u s. IsDir f \<and> key = pathJoin [srcContext, Name f] \<and>
         AnalyzeAndDetectDevfile env (pathJoin [root, Name f]) (DevfileRegistryURL cdqInfo) =
           Inr (b, u, s, Some ps))) \<and>
   (AnalyzePath env localpath context devfileRegistryURL m devfilePresent dockerfilePresent token = Inr m' \<longrightarrow>
    componentPortsMapFromRepo m context = None \<longrightarrow>
      (componentPortsMapFromRepo m' context = Some ports \<longleftrightarrow>
         (\<not> devfilePresent \<or>
          (\<not> dockerfilePresent \<and>
           SearchForDockerfile env
             (case devfileMapFromRepo m context of None \<Rightarrow> [] | Some b \<Rightarrow> b) token = Inr None)) \<and>
         (\<exists>b u s. AnalyzeAndDetectDevfile env localpath devfileRegistryURL = Inr (b, u, s, Some ports)) \<and>
         ports \<noteq> []) \<and>
      (\<forall>k. k \<noteq> context \<longrightarrow> componentPortsMapFromRepo m' k = componentPortsMapFromRepo m k))"
proof (intro conjI)
  show "ReadDir env root = Inr (pre @ f # post) \<longrightarrow> IsDir f \<longrightarrow>
    (\<forall>f' \<in> set pre \<union> set post. IsDir f' \<longrightarrow>
        pathJoin [srcContext, Name f'] \<noteq> pathJoin [srcContext, Name f]) \<longrightarrow>
    search env root srcContext cdqInfo = Inr r \<longrightarrow>
      (\<exists>m0 st. searchLoop env cdqInfo root srcContext pre emptyMaps = Inr m0 \<and>
         scanContext env cdqInfo root srcContext f m0 = Inr st \<and>
         (componentPortsMapFromRepo r (pathJoin [srcContext, Name f]) = Some ports \<longleftrightarrow>
            \<not> isDockerfilePresent st \<and>
            (isDevfilePresent st \<longrightarrow>
               SearchForDockerfile env
                 (case devfileMapFromRepo (M st) (pathJoin [srcContext, Name f]) of
                    None \<Rightarrow> [] | Some b \<Rightarrow> b)
                 (Token cdqInfo) = Inr None) \<and>
            (\<exists>b u s. AnalyzeAndDetectDevfile env (pathJoin [root, Name f]) (DevfileRegistryURL cdqInfo) =
                       Inr (b, u, s, Some ports)) \<and>
            ports \<noteq> []))"
    by (intro impI) (rule search_ports_iff[OF _ _ refl refl]; assumption)
next
  show "search env root srcContext cdqInfo = Inr r \<longrightarrow> ReadDir env root = Inr files \<longrightarrow>
    componentPortsMapFromRepo r key = Some ps \<longrightarrow>
      ps \<noteq> [] \<and>
      (\<exists>f \<in> set files. \<exists>b u s. IsDir f \<and> key = pathJoin [srcContext, Name f] \<and>
         AnalyzeAndDetectDevfile env (pathJoin [root, Name f]) (DevfileRegistryURL cdqInfo) =
           Inr (b, u, s, Some ps))"
  proof (intro impI)
    assume sr: "search env root srcContext cdqInfo = Inr r" and rd: "ReadDir env root = Inr files"
      and e: "componentPortsMapFromRepo r key = Some ps"
    from sr rd have "portsDetected env cdqInfo root srcContext files r"
      by (rule search_portsDetected)
    with e show "ps \<noteq> [] \<and>
      (\<exists>f \<in> set files. \<exists>b u s. IsDir f \<and> key = pathJoin [srcContext, Name f] \<and>
         AnalyzeAndDetectDevfile env (pathJoin [root, Name f]) (DevfileRegistryURL cdqInfo) =
           Inr (b, u, s, Some ps))"
      unfolding portsDetected_def by blast
  qed
next
  show "AnalyzePath env localpath context devfileRegistryURL m devfilePresent dockerfilePresent token = Inr m' \<longrightarrow>
    componentPortsMapFromRepo m context = None \<longrightarrow>
      (componentPortsMapFromRepo m' context = Some ports \<longleftrightarrow>
         (\<not> devfilePresent \<or>
          (\<not> dockerfilePresent \<and>
           SearchForDockerfile env
             (case devfileMapFromRepo m context of None \<Rightarrow> [] | Some b \<Rightarrow> b) token = Inr None)) \<and>
         (\<exists>b u s. AnalyzeAndDetectDevfile env localpath devfileRegistryURL = Inr (b, u, s, Some ports)) \<and>
         ports \<noteq> []) \<and>
      (\<forall>k. k \<noteq> context \<longrightarrow> componentPortsMapFromRepo m' k = componentPortsMapFromRepo m k)"
    by (intro impI) (rule AnalyzePath_ports_iff; assumption)
qed

section \<open>The depth of the scan\<close>

lemma SearchForDockerfile_fs:
  "SearchForDockerfile (env\<lparr>ReadDir := r', ValidateDevfile := v'\<rparr>) b t = SearchForDockerfile env b t"
  by (simp add: SearchForDockerfile_def cong: sum.case_cong)

lemma detectFromLanguages_fs:
  "detectFromLanguages (env\<lparr>ReadDir := r', ValidateDevfile := v'\<rparr>) p reg tys ports ls =
   detectFromLanguages env p reg tys ports ls"
  by (induction ls) (simp_all cong: sum.case_cong prod.case_cong if_cong)

lemma AnalyzeAndDetectDevfile_fs:
  "AnalyzeAndDetectDevfile (env\<lparr>ReadDir := r', ValidateDevfile := v'\<rparr>) p reg =
   AnalyzeAndDetectDevfile env p reg"
  by (simp add: AnalyzeAndDetectDevfile_def detectFromLanguages_fs cong: sum.case_cong list.case_cong)

lemma AnalyzePath_fs:
  "AnalyzePath (env\<lparr>ReadDir := r', ValidateDevfile := v'\<rparr>) lp c reg m dv dk t =
   AnalyzePath env lp c reg m dv dk t"
  by (simp add: AnalyzePath_def analyzeDevfile_def analyzeWithAlizer_def detectPorts_def
      SearchForDockerfile_fs AnalyzeAndDetectDevfile_fs
      cong: sum.case_cong prod.case_cong option.case_cong if_cong)

lemma recordDevfile_fs:
  "v' p = ValidateDevfile env p \<Longrightarrow>
   recordDevfile (env\<lparr>ReadDir := r', ValidateDevfile := v'\<rparr>) q ctx p l st = recordDevfile env q ctx p l st"
  by (simp add: recordDevfile_def cong: sum.case_cong)

lemma scanHiddenDir_fs:
  "\<forall>h \<in> set hs. isDevfileName (ToLower (Name h)) \<longrightarrow>
      v' (pathJoin [hp, Name h]) = ValidateDevfile env (pathJoin [hp, Name h]) \<Longrightarrow>
   scanHiddenDir (env\<lparr>ReadDir := r', ValidateDevfile := v'\<rparr>) q ctx hp hs st =
   scanHiddenDir env q ctx hp hs st"
proof (induction hs arbitrary: st)
  case Nil
  then show ?case by simp
next
  case (Cons h hs)
  then show ?case by (simp add: recordDevfile_fs split: sum.splits)
qed

lemma manifestsIn_mem:
  "ReadDir env dir = Inr files \<Longrightarrow> g \<in> set files \<Longrightarrow> isDevfileName (ToLower (Name g)) \<Longrightarrow>
   pathJoin [dir, Name g] \<in> set (manifestsIn env dir)"
  by (simp add: manifestsIn_def)

lemma scanEntry_fs:
  assumes dirs: "\<forall>p \<in> set (contextDirs cur). r' p = ReadDir env p"
    and hidden: "\<forall>p \<in> set (manifestsIn env (pathJoin [cur, HiddenDevfileDir])). v' p = ValidateDevfile env p"
    and flat: "isDevfileName (ToLower (Name g)) \<longrightarrow>
        v' (pathJoin [cur, Name g]) = ValidateDevfile env (pathJoin [cur, Name g])"
  shows "scanEntry (env\<lparr>ReadDir := r', ValidateDevfile := v'\<rparr>) q cur ctx g st = scanEntry env q cur ctx g st"
proof -
  have h1: "r' (pathJoin [cur, HiddenDevfileDir]) = ReadDir env (pathJoin [cur, HiddenDevfileDir])"
    using dirs by (simp add: contextDirs_def)
  have h2: "Name g = DockerDir \<or> Name g = HiddenDockerDir \<or> Name g = BuildDir \<Longrightarrow>
      r' (pathJoin [cur, Name g]) = ReadDir env (pathJoin [cur, Name g])"
    using dirs by (auto simp: contextDirs_def)
  have h3: "\<And>hs. ReadDir env (pathJoin [cur, HiddenDevfileDir]) = Inr hs \<Longrightarrow>
      scanHiddenDir (env\<lparr>ReadDir := r', ValidateDevfile := v'\<rparr>) q ctx (pathJoin [cur, HiddenDevfileDir]) hs st =
      scanHiddenDir env q ctx (pathJoin [cur, HiddenDevfileDir]) hs st"
    using hidden by (intro scanHiddenDir_fs) (auto dest: manifestsIn_mem)
  show ?thesis
    unfolding scanEntry_def
    using flat h1 h2 h3 by (auto simp: recordDevfile_fs split: sum.splits)
qed

lemma scanFiles_fs:
  assumes dirs: "\<forall>p \<in> set (contextDirs cur). r' p = ReadDir env p"
    and hidden: "\<forall>p \<in> set (manifestsIn env (pathJoin [cur, HiddenDevfileDir])). v' p = ValidateDevfile env p"
    and flat: "\<forall>g \<in> set fs. isDevfileName (ToLower (Name g)) \<longrightarrow>
        v' (pathJoin [cur, Name g]) = ValidateDevfile env (pathJoin [cur, Name g])"
  shows "scanFiles (env\<lparr>ReadDir := r', ValidateDevfile := v'\<rparr>) q cur ctx fs st = scanFiles env q cur ctx fs st"
  using flat
proof (induction fs arbitrary: st)
  case Nil
  then show ?case by simp
next
  case (Cons g fs)
  have "scanEntry (env\<lparr>ReadDir := r', ValidateDevfile := v'\<rparr>) q cur ctx g st = scanEntry env q cur ctx g st"
    using Cons.prems by (intro scanEntry_fs[OF dirs hidden]) simp
  with Cons show ?case by (simp split: sum.splits)
qed

lemma searchEntry_fs:
  assumes dirs: "IsDir f \<longrightarrow> (\<forall>p \<in> set (contextDirs (pathJoin [lp, Name f])). r' p = ReadDir env p)"
    and mans: "IsDir f \<longrightarrow> (\<forall>p \<in> set (manifestsIn env (pathJoin [lp, Name f]) @
                      manifestsIn env (pathJoin [pathJoin [lp, Name f], HiddenDevfileDir])).
              v' p = ValidateDevfile env p)"
  shows "searchEntry (env\<lparr>ReadDir := r', ValidateDevfile := v'\<rparr>) q lp sc f m = searchEntry env q lp sc f m"
proof (cases "IsDir f")
  case False
  then show ?thesis by (simp add: searchEntry_def)
next
  case True
  let ?cur = "pathJoin [lp, Name f]"
  from True dirs have d: "\<forall>p \<in> set (contextDirs ?cur). r' p = ReadDir env p" by simp
  then have r: "r' ?cur = ReadDir env ?cur" by (simp add: contextDirs_def)
  from True mans have h: "\<forall>p \<in> set (manifestsIn env (pathJoin [?cur, HiddenDevfileDir])). v' p = ValidateDevfile env p"
    and fl: "\<forall>p \<in> set (manifestsIn env ?cur). v' p = ValidateDevfile env p" by simp_all
  have "scanContext (env\<lparr>ReadDir := r', ValidateDevfile := v'\<rparr>) q lp sc f m = scanContext env q lp sc f m"
  proof (cases "ReadDir env ?cur")
    case (Inl e)
    with r show ?thesis by (simp add: scanContext_def)
  next
    case (Inr fs)
    have "\<forall>g \<in> set fs. isDevfileName (ToLower (Name g)) \<longrightarrow>
        v' (pathJoin [?cur, Name g]) = ValidateDevfile env (pathJoin [?cur, Name g])"
      using fl Inr by (auto dest: manifestsIn_mem)
    from scanFiles_fs[OF d h this] Inr r show ?thesis by (simp add: scanContext_def)
  qed
  then show ?thesis by (simp add: searchEntry_def AnalyzePath_fs cong: sum.case_cong if_cong)
qed

lemma searchLoop_fs:
  assumes "\<forall>f \<in> set fs. IsDir f \<longrightarrow> (\<forall>p \<in> set (contextDirs (pathJoin [lp, Name f])). r' p = ReadDir env p)"
    and "\<forall>f \<in> set fs. IsDir f \<longrightarrow> (\<forall>p \<in> set (manifestsIn env (pathJoin [lp, Name f]) @
                      manifestsIn env (pathJoin [pathJoin [lp, Name f], HiddenDevfileDir])).
              v' p = ValidateDevfile env p)"
  shows "searchLoop (env\<lparr>ReadDir := r', ValidateDevfile := v'\<rparr>) q lp sc fs m = searchLoop env q lp sc fs m"
  using assms
proof (induction fs arbitrary: m)
  case Nil
  then show ?case by simp
next
  case (Cons f fs)
  have "searchEntry (env\<lparr>ReadDir := r', ValidateDevfile := v'\<rparr>) q lp sc f m = searchEntry env q lp sc f m"
    using Cons.prems by (intro searchEntry_fs) simp_all
  moreover have "\<And>m. searchLoop (env\<lparr>ReadDir := r', ValidateDevfile := v'\<rparr>) q lp sc fs m = searchLoop env q lp sc fs m"
    using Cons.prems by (intro Cons.IH) simp_all
  ultimately show ?case by (simp split: sum.splits)
qed

text \<open>
  C9: the result of \<open>search\<close> depends on the file system only through the listings of the
  root, of its immediate sub-directories and of the four special directories below them,
  and through the validation of the manifests in a sub-directory or in its hidden devfile
  directory. Any other file system that agrees on these gives the same result, so a
  manifest placed deeper is never read.
\<close>

theorem search_depth_bound:
  assumes dirs: "\<forall>p \<in> set (scannedDirs env localpath). readDir' p = ReadDir env p"
    and mans: "\<forall>p \<in> set (scannedManifests env localpath). validate' p = ValidateDevfile env p"
  shows "search (env\<lparr>ReadDir := readDir', ValidateDevfile := validate'\<rparr>) localpath srcContext cdqInfo =
         search env localpath srcContext cdqInfo"
proof -
  have r: "readDir' localpath = ReadDir env localpath"
    using dirs by (simp add: scannedDirs_def)
  show ?thesis
  proof (cases "ReadDir env localpath")
    case (Inl e)
    with r show ?thesis by (simp add: search_def)
  next
    case (Inr files)
    have a: "\<forall>f \<in> set files. IsDir f \<longrightarrow>
        (\<forall>p \<in> set (contextDirs (pathJoin [localpath, Name f])). readDir' p = ReadDir env p)"
      using dirs Inr by (auto simp: scannedDirs_def)
    have b: "\<forall>f \<in> set files. IsDir f \<longrightarrow> (\<forall>p \<in> set (manifestsIn env (pathJoin [localpath, Name f]) @
                      manifestsIn env (pathJoin [pathJoin [localpath, Name f], HiddenDevfileDir])).
              validate' p = ValidateDevfile env p)"
      using mans Inr by (auto simp: scannedManifests_def)
    from searchLoop_fs[OF a b] Inr r show ?thesis by (simp add: search_def)
  qed
qed

section \<open>Ignored devfiles\<close>

lemma recordDevfile_ignored:
  assumes "UpdateGitLink env (RepoURL q) (Revision q) l = Inr link"
    and "ValidateDevfile env p (Token q) = Inr (True, devfileBytes)"
  shows "recordDevfile env q ctx p l st = Inr (st\<lparr>isDevfilePresent := False\<rparr>)"
  using assms by (simp add: recordDevfile_def)

lemma recordDevfile_ignoredManifest:
  "ignoredManifest env q p l \<Longrightarrow> recordDevfile env q ctx p l st = Inr (st\<lparr>isDevfilePresent := False\<rparr>)"
  by (auto simp: ignoredManifest_def recordDevfile_def split: sum.splits prod.splits)

lemma flag_already_false: "\<not> isDevfilePresent st \<Longrightarrow> st\<lparr>isDevfilePresent := False\<rparr> = st"
  by (cases st) simp

lemma scanHiddenDir_all_ignored:
  "\<forall>h \<in> set hs. isDevfileName (ToLower (Name h)) \<longrightarrow>
      ignoredManifest env q (pathJoin [hp, Name h]) (pathJoin [ctx, HiddenDevfileDir, Name h]) \<Longrightarrow>
   \<not> isDevfilePresent st \<Longrightarrow> scanHiddenDir env q ctx hp hs st = Inr st"
proof (induction hs)
  case Nil
  then show ?case by simp
next
  case (Cons h hs)
  then show ?case
    by (simp add: recordDevfile_ignoredManifest flag_already_false)
qed

lemma scanHiddenDir_no_manifests:
  "scanHiddenDir env q ctx hp (filter (\<lambda>g. \<not> isDevfileName (ToLower (Name g))) hs) st = Inr st"
  by (induction hs) simp_all

lemma devfile_name_not_dockerfile:
  "isDevfileName n \<Longrightarrow> n \<noteq> ToLower DockerfileName \<and> n \<noteq> ToLower ContainerfileName"
  by (auto simp: isDevfileName_def Devfile_def HiddenDevfile_def DevfileYml_def HiddenDirDevfileYml_def
      DockerfileName_def ContainerfileName_def ToLower_def lowerChar_def)

lemma scanDockerDir_without_manifests:
  "scanDockerDir ctx d (filter (\<lambda>g. \<not> isDevfileName (ToLower (Name g))) fs) st = scanDockerDir ctx d fs st"
  by (induction fs arbitrary: st) (auto dest: devfile_name_not_dockerfile)

lemma withoutManifests_fields:
  "UpdateGitLink (withoutManifests env) = UpdateGitLink env"
  "ValidateDevfile (withoutManifests env) = ValidateDevfile env"
  "ReadDir (withoutManifests env) p =
     (case ReadDir env p of Inl e \<Rightarrow> Inl e
      | Inr files \<Rightarrow> Inr (filter (\<lambda>g. \<not> isDevfileName (ToLower (Name g))) files))"
  by (simp_all add: withoutManifests_def)

lemma withoutManifests_AnalyzePath:
  "AnalyzePath (withoutManifests env) lp c reg m dv dk t = AnalyzePath env lp c reg m dv dk t"
proof -
  have "withoutManifests env =
      env\<lparr>ReadDir := ReadDir (withoutManifests env), ValidateDevfile := ValidateDevfile env\<rparr>"
    by (simp add: withoutManifests_def)
  then show ?thesis using AnalyzePath_fs by metis
qed

lemma scanDockerDir_noDevfileSince:
  "\<not> isDevfilePresent st \<Longrightarrow> noDevfileSince st (scanDockerDir ctx d fs st)"
proof (induction fs arbitrary: st)
  case Nil
  then show ?case by (simp add: noDevfileSince_def)
next
  case (Cons f fs)
  show ?case
  proof (cases "ToLower (Name f) = ToLower DockerfileName \<or> ToLower (Name f) = ToLower ContainerfileName")
    case False
    with Cons show ?thesis by simp
  next
    case True
    let ?st1 = "st\<lparr>M := (M st)\<lparr>dockerfileContextMapFromRepo :=
                     (dockerfileContextMapFromRepo (M st))(ctx \<mapsto> pathJoin [d, Name f])\<rparr>,
                 isDockerfilePresent := True\<rparr>"
    from Cons.prems have "\<not> isDevfilePresent ?st1" by simp
    from Cons.IH[OF this] True show ?thesis by (simp add: noDevfileSince_def)
  qed
qed

lemma scanEntry_without_manifests:
  assumes hidden: "manifestsIgnored env q (pathJoin [cur, HiddenDevfileDir]) [ctx, HiddenDevfileDir]"
    and flag: "\<not> isDevfilePresent st"
    and g: "\<not> isDevfileName (ToLower (Name g))"
  shows "scanEntry (withoutManifests env) q cur ctx g st = scanEntry env q cur ctx g st"
    and "scanEntry env q cur ctx g st = Inr st' \<Longrightarrow> noDevfileSince st st'"
proof -
  have h: "\<And>hs. ReadDir env (pathJoin [cur, HiddenDevfileDir]) = Inr hs \<Longrightarrow>
      scanHiddenDir env q ctx (pathJoin [cur, HiddenDevfileDir]) hs st = Inr st"
    using hidden flag
    by (intro scanHiddenDir_all_ignored) (auto simp: manifestsIgnored_def list_all_iff)
  show "scanEntry (withoutManifests env) q cur ctx g st = scanEntry env q cur ctx g st"
    using g h
    by (auto simp: scanEntry_def withoutManifests_fields scanHiddenDir_no_manifests
        scanDockerDir_without_manifests split: sum.splits)
  show "scanEntry env q cur ctx g st = Inr st' \<Longrightarrow> noDevfileSince st st'"
    using g h flag scanDockerDir_noDevfileSince[OF flag]
    by (auto simp: scanEntry_def noDevfileSince_def split: if_splits sum.splits)
qed

lemma noDevfileSince_trans:
  "noDevfileSince st st1 \<Longrightarrow> noDevfileSince st1 st2 \<Longrightarrow> noDevfileSince st st2"
  by (simp add: noDevfileSince_def)

lemma scanFiles_without_manifests:
  assumes hidden: "manifestsIgnored env q (pathJoin [cur, HiddenDevfileDir]) [ctx, HiddenDevfileDir]"
    and flat: "\<forall>g \<in> set files. isDevfileName (ToLower (Name g)) \<longrightarrow>
        ignoredManifest env q (pathJoin [cur, Name g]) (pathJoin [ctx, Name g])"
    and flag: "\<not> isDevfilePresent st"
  shows "scanFiles (withoutManifests env) q cur ctx (filter (\<lambda>g. \<not> isDevfileName (ToLower (Name g))) files) st =
         scanFiles env q cur ctx files st \<and>
         (\<forall>st'. scanFiles env q cur ctx files st = Inr st' \<longrightarrow> noDevfileSince st st')"
  using flat flag
proof (induction files arbitrary: st)
  case Nil
  then show ?case by (simp add: noDevfileSince_def)
next
  case (Cons g files)
  from Cons.prems have rest: "\<forall>g \<in> set files. isDevfileName (ToLower (Name g)) \<longrightarrow>
        ignoredManifest env q (pathJoin [cur, Name g]) (pathJoin [ctx, Name g])" by simp
  show ?case
  proof (cases "isDevfileName (ToLower (Name g))")
    case True
    with Cons.prems have "ignoredManifest env q (pathJoin [cur, Name g]) (pathJoin [ctx, Name g])" by simp
    then have "scanEntry env q cur ctx g st = Inr st"
      using True Cons.prems(2) by (simp add: scanEntry_def recordDevfile_ignoredManifest flag_already_false)
    with True Cons.IH[OF rest Cons.prems(2)] show ?thesis by simp
  next
    case False
    note e = scanEntry_without_manifests[OF hidden Cons.prems(2) False]
    show ?thesis
    proof (cases "scanEntry env q cur ctx g st")
      case (Inl err)
      with False e(1) show ?thesis by simp
    next
      case (Inr st1)
      from e(2)[OF Inr] have n: "noDevfileSince st st1" .
      then have "\<not> isDevfilePresent st1" by (simp add: noDevfileSince_def)
      from Cons.IH[OF rest this] False e(1) Inr n show ?thesis
        by (auto intro: noDevfileSince_trans)
    qed
  qed
qed

lemma searchEntry_without_manifests:
  assumes dir: "IsDir f"
    and flat: "manifestsIgnored env q (pathJoin [lp, Name f]) [pathJoin [sc, Name f]]"
    and hidden: "manifestsIgnored env q (pathJoin [pathJoin [lp, Name f], HiddenDevfileDir])
                   [pathJoin [sc, Name f], HiddenDevfileDir]"
  shows "searchEntry (withoutManifests env) q lp sc f m = searchEntry env q lp sc f m"
    and "scanContext env q lp sc f m = Inr st' \<Longrightarrow>
           \<not> isDevfilePresent st' \<and> devfileMapFromRepo (M st') = devfileMapFromRepo m \<and>
           devfilesURLMapFromRepo (M st') = devfilesURLMapFromRepo m"
proof -
  let ?cur = "pathJoin [lp, Name f]" and ?ctx = "pathJoin [sc, Name f]"
  let ?st0 = "\<lparr>M = m, isDevfilePresent = False, isDockerfilePresent = False\<rparr>"
  have s: "\<And>files. ReadDir env ?cur = Inr files \<Longrightarrow>
      scanFiles (withoutManifests env) q ?cur ?ctx (filter (\<lambda>g. \<not> isDevfileName (ToLower (Name g))) files) ?st0 =
         scanFiles env q ?cur ?ctx files ?st0 \<and>
         (\<forall>st'. scanFiles env q ?cur ?ctx files ?st0 = Inr st' \<longrightarrow> noDevfileSince ?st0 st')"
    using flat by (intro scanFiles_without_manifests[OF hidden]) (auto simp: manifestsIgnored_def list_all_iff)
  have c: "scanContext (withoutManifests env) q lp sc f m = scanContext env q lp sc f m"
    using s by (auto simp: scanContext_def withoutManifests_fields split: sum.splits)
  show "searchEntry (withoutManifests env) q lp sc f m = searchEntry env q lp sc f m"
    by (simp add: searchEntry_def c withoutManifests_AnalyzePath cong: sum.case_cong if_cong)
  show "scanContext env q lp sc f m = Inr st' \<Longrightarrow>
           \<not> isDevfilePresent st' \<and> devfileMapFromRepo (M st') = devfileMapFromRepo m \<and>
           devfilesURLMapFromRepo (M st') = devfilesURLMapFromRepo m"
    using s by (auto simp: scanContext_def noDevfileSince_def unsetDockerfile_def split: sum.splits)
qed

text \<open>
  C5: a manifest that \<open>ValidateDevfile\<close> accepts and classifies as ignored, at either of the
  two places a manifest is read. In the context itself (entry \<open>g\<close>): scanning it stores
  nothing and leaves the flag devfile present false; when the flag was false before, the
  scan is what it is without the file; a context that holds only this file gets
  \<open>AnalyzePath\<close> with both flags false. In the hidden devfile directory (entry \<open>d\<close>, file
  \<open>h\<close>): the scan of the directory goes on from the state before the file with the flag
  false and the maps unchanged. And a context all of whose manifests, in both places, are
  ignored: its scan ends with the flag false and the devfile bytes and URLs untouched, and
  its iteration of \<open>search\<close>, fallback detection included, is the iteration on the file
  system with no manifest file at all.
\<close>

theorem ignored_devfile_is_absent:
  "(isDevfileName (ToLower (Name g)) \<longrightarrow>
    UpdateGitLink env (RepoURL cdqInfo) (Revision cdqInfo) (pathJoin [context, Name g]) = Inr updatedLink \<longrightarrow>
    ValidateDevfile env (pathJoin [curPath, Name g]) (Token cdqInfo) = Inr (True, devfileBytes) \<longrightarrow>
      scanEntry env cdqInfo curPath context g st = Inr (st\<lparr>isDevfilePresent := False\<rparr>) \<and>
      (\<not> isDevfilePresent st \<longrightarrow>
         scanFiles env cdqInfo curPath context (g # fpost) st =
         scanFiles env cdqInfo curPath context fpost st) \<and>
      (IsDir f \<longrightarrow> curPath = pathJoin [localpath, Name f] \<longrightarrow>
       context = pathJoin [srcContext, Name f] \<longrightarrow> ReadDir env curPath = Inr [g] \<longrightarrow>
         searchEntry env cdqInfo localpath srcContext f m =
         AnalyzePath env curPath context (DevfileRegistryURL cdqInfo) m False False (Token cdqInfo))) \<and>
   (\<not> isDevfileName (ToLower (Name d)) \<longrightarrow> IsDir d \<longrightarrow> Name d = HiddenDevfileDir \<longrightarrow>
    ReadDir env (pathJoin [curPath, HiddenDevfileDir]) = Inr (hpre @ h # hpost) \<longrightarrow>
    isDevfileName (ToLower (Name h)) \<longrightarrow>
    UpdateGitLink env (RepoURL cdqInfo) (Revision cdqInfo)
      (pathJoin [context, HiddenDevfileDir, Name h]) = Inr hiddenLink \<longrightarrow>
    ValidateDevfile env (pathJoin [pathJoin [curPath, HiddenDevfileDir], Name h]) (Token cdqInfo) =
      Inr (True, hiddenBytes) \<longrightarrow>
      scanEntry env cdqInfo curPath context d st =
        (case scanHiddenDir env cdqInfo context (pathJoin [curPath, HiddenDevfileDir]) hpre st of
           Inl e \<Rightarrow> Inl e
         | Inr st1 \<Rightarrow>
             scanHiddenDir env cdqInfo context (pathJoin [curPath, HiddenDevfileDir]) hpost
               (st1\<lparr>isDevfilePresent := False\<rparr>))) \<and>
   (IsDir f \<longrightarrow>
    manifestsIgnored env cdqInfo (pathJoin [localpath, Name f]) [pathJoin [srcContext, Name f]] \<longrightarrow>
    manifestsIgnored env cdqInfo (pathJoin [pathJoin [localpath, Name f], HiddenDevfileDir])
      [pathJoin [srcContext, Name f], HiddenDevfileDir] \<longrightarrow>
      searchEntry env cdqInfo localpath srcContext f m =
        searchEntry (withoutManifests env) cdqInfo localpath srcContext f m \<and>
      (scanContext env cdqInfo localpath srcContext f m = Inr st' \<longrightarrow>
         \<not> isDevfilePresent st' \<and> devfileMapFromRepo (M st') = devfileMapFromRepo m \<and>
         devfilesURLMapFromRepo (M st') = devfilesURLMapFromRepo m) \<and>
      (ReadDir env localpath = Inr (pre @ f # post) \<longrightarrow>
         search env localpath srcContext cdqInfo =
           (case searchLoop env cdqInfo localpath srcContext pre emptyMaps of
              Inl e \<Rightarrow> Inl e
            | Inr m1 \<Rightarrow>
                (case searchEntry (withoutManifests env) cdqInfo localpath srcContext f m1 of
                   Inl e \<Rightarrow> Inl e
                 | Inr m2 \<Rightarrow> searchLoop env cdqInfo localpath srcContext post m2))))"
proof (intro conjI impI)
  assume name: "isDevfileName (ToLower (Name g))"
    and link: "UpdateGitLink env (RepoURL cdqInfo) (Revision cdqInfo) (pathJoin [context, Name g]) = Inr updatedLink"
    and ignored: "ValidateDevfile env (pathJoin [curPath, Name g]) (Token cdqInfo) = Inr (True, devfileBytes)"
  have a: "\<And>st. scanEntry env cdqInfo curPath context g st = Inr (st\<lparr>isDevfilePresent := False\<rparr>)"
    using name recordDevfile_ignored[OF link ignored] by (simp add: scanEntry_def)
  show "scanEntry env cdqInfo curPath context g st = Inr (st\<lparr>isDevfilePresent := False\<rparr>)"
    by (rule a)
  {
    assume "\<not> isDevfilePresent st"
    then have e: "st\<lparr>isDevfilePresent := False\<rparr> = st" by (rule flag_already_false)
    have "scanFiles env cdqInfo curPath context (g # fpost) st =
          scanFiles env cdqInfo curPath context fpost (st\<lparr>isDevfilePresent := False\<rparr>)"
      by (simp add: a)
    then show "scanFiles env cdqInfo curPath context (g # fpost) st =
            scanFiles env cdqInfo curPath context fpost st"
      by (simp only: e)
  }
  {
    assume h: "IsDir f" "curPath = pathJoin [localpath, Name f]"
      "context = pathJoin [srcContext, Name f]" "ReadDir env curPath = Inr [g]"
    show "searchEntry env cdqInfo localpath srcContext f m =
            AnalyzePath env curPath context (DevfileRegistryURL cdqInfo) m False False (Token cdqInfo)"
      using h(1,4) a unfolding h(2,3)
      by (simp add: searchEntry_def scanContext_def unsetDockerfile_def)
  }
next
  assume d: "\<not> isDevfileName (ToLower (Name d))" "IsDir d" "Name d = HiddenDevfileDir"
    and l: "ReadDir env (pathJoin [curPath, HiddenDevfileDir]) = Inr (hpre @ h # hpost)"
    and name: "isDevfileName (ToLower (Name h))"
    and link: "UpdateGitLink env (RepoURL cdqInfo) (Revision cdqInfo)
      (pathJoin [context, HiddenDevfileDir, Name h]) = Inr hiddenLink"
    and ignored: "ValidateDevfile env (pathJoin [pathJoin [curPath, HiddenDevfileDir], Name h]) (Token cdqInfo) =
      Inr (True, hiddenBytes)"
  have "scanEntry env cdqInfo curPath context d st =
      scanHiddenDir env cdqInfo context (pathJoin [curPath, HiddenDevfileDir]) (hpre @ h # hpost) st"
    using d l by (simp add: scanEntry_def)
  also have "\<dots> = (case scanHiddenDir env cdqInfo context (pathJoin [curPath, HiddenDevfileDir]) hpre st of
           Inl e \<Rightarrow> Inl e
         | Inr st1 \<Rightarrow>
             scanHiddenDir env cdqInfo context (pathJoin [curPath, HiddenDevfileDir]) hpost
               (st1\<lparr>isDevfilePresent := False\<rparr>))"
    using name recordDevfile_ignored[OF link ignored]
    by (simp add: scanHiddenDir_append split: sum.splits)
  finally show "scanEntry env cdqInfo curPath context d st =
        (case scanHiddenDir env cdqInfo context (pathJoin [curPath, HiddenDevfileDir]) hpre st of
           Inl e \<Rightarrow> Inl e
         | Inr st1 \<Rightarrow>
             scanHiddenDir env cdqInfo context (pathJoin [curPath, HiddenDevfileDir]) hpost
               (st1\<lparr>isDevfilePresent := False\<rparr>))" .
next
  assume dir: "IsDir f"
    and flat: "manifestsIgnored env cdqInfo (pathJoin [localpath, Name f]) [pathJoin [srcContext, Name f]]"
    and hidden: "manifestsIgnored env cdqInfo (pathJoin [pathJoin [localpath, Name f], HiddenDevfileDir])
      [pathJoin [srcContext, Name f], HiddenDevfileDir]"
  note w = searchEntry_without_manifests[OF dir flat hidden]
  show e: "searchEntry env cdqInfo localpath srcContext f m =
        searchEntry (withoutManifests env) cdqInfo localpath srcContext f m"
    by (simp add: w(1))
  {
    assume "scanContext env cdqInfo localpath srcContext f m = Inr st'"
    from w(2)[OF this]
    show "\<not> isDevfilePresent st'" and "devfileMapFromRepo (M st') = devfileMapFromRepo m"
      and "devfilesURLMapFromRepo (M st') = devfilesURLMapFromRepo m"
      by simp_all
  }
  {
    assume "ReadDir env localpath = Inr (pre @ f # post)"
    then show "search env localpath srcContext cdqInfo =
           (case searchLoop env cdqInfo localpath srcContext pre emptyMaps of
              Inl e \<Rightarrow> Inl e
            | Inr m1 \<Rightarrow>
                (case searchEntry (withoutManifests env) cdqInfo localpath srcContext f m1 of
                   Inl e \<Rightarrow> Inl e
                 | Inr m2 \<Rightarrow> searchLoop env cdqInfo localpath srcContext post m2))"
      by (simp add: search_def searchLoop_append w(1) cong: sum.case_cong)
  }
qed

section \<open>Empty input of SearchForDockerfile\<close>

text \<open>
  C10: on an empty byte slice \<open>SearchForDockerfile\<close> returns no Dockerfile and no error,
  without calling the parser.
\<close>

theorem SearchForDockerfile_empty_input: "SearchForDockerfile env [] token = Inr None"
  by (simp add: SearchForDockerfile_def)

section \<open>The properties on the concrete repository\<close>

text \<open>
  A devfile whose second image component is the first with a Dockerfile URI, an absolute
  one: the URI becomes the entry. A devfile that declares a relative URI: no entry.
\<close>

theorem embedded_dockerfile_recorded_only_if_absolute_witness:
  "resultEntries
     (AnalyzePath demoEnv ''/r1/both'' ''svc'' ''https://registry.example''
        (emptyMaps\<lparr>devfileMapFromRepo := [''svc'' \<mapsto> ''local-http'']\<rparr>) True False []) ''svc'' =
   Inr (Some ''local-http'', None, Some ''http://example.com/Dockerfile'', None) \<and>
   resultEntries
     (AnalyzePath demoEnv ''/r1/both'' ''svc'' ''https://registry.example''
        (emptyMaps\<lparr>devfileMapFromRepo := [''svc'' \<mapsto> ''local-relative'']\<rparr>) True False []) ''svc'' =
   Inr (Some ''local-relative'', None, None, None)"
proof -
  let ?abs = "DockerfileImage ''http://example.com/Dockerfile'' ''.''"
  let ?rel = "DockerfileImage ''docker/Dockerfile'' ''.''"
  have p1: "ParseDevfileData demoEnv ''local-http'' [] =
      Inr ([Component ''tools'' None] @
           Component ''image-build'' (Some (ImageComponent ''svc'' (Some ?abs))) #
           [Component ''other-build''
              (Some (ImageComponent ''other'' (Some (DockerfileImage ''http://example.com/other'' ''.''))))])"
    by (simp add: demoEnv_def demoParse_def)
  have p2: "ParseDevfileData demoEnv ''local-relative'' [] =
      Inr ([] @ Component ''image-build'' (Some (ImageComponent ''svc'' (Some ?rel))) # [])"
    by (simp add: demoEnv_def demoParse_def)
  have g: "\<And>cs. GetImageComponents demoEnv cs = Inr cs"
    by (simp add: demoEnv_def)
  have b1: "devfileMapFromRepo (emptyMaps\<lparr>devfileMapFromRepo := [''svc'' \<mapsto> ''local-http'']\<rparr>) ''svc'' =
      Some ''local-http''"
    and b2: "devfileMapFromRepo (emptyMaps\<lparr>devfileMapFromRepo := [''svc'' \<mapsto> ''local-relative'']\<rparr>) ''svc'' =
      Some ''local-relative''"
    by simp_all
  have n1: "''local-http'' \<noteq> []" and n2: "''local-relative'' \<noteq> []"
    by simp_all
  have a: "AnalyzePath demoEnv ''/r1/both'' ''svc'' ''https://registry.example''
        (emptyMaps\<lparr>devfileMapFromRepo := [''svc'' \<mapsto> ''local-http'']\<rparr>) True False [] =
      Inr (if prefix ''http'' (Uri ?abs)
           then (emptyMaps\<lparr>devfileMapFromRepo := [''svc'' \<mapsto> ''local-http'']\<rparr>)
                  \<lparr>dockerfileContextMapFromRepo :=
                     (dockerfileContextMapFromRepo (emptyMaps\<lparr>devfileMapFromRepo := [''svc'' \<mapsto> ''local-http'']\<rparr>))
                       (''svc'' \<mapsto> Uri ?abs)\<rparr>
           else emptyMaps\<lparr>devfileMapFromRepo := [''svc'' \<mapsto> ''local-http'']\<rparr>)"
    using embedded_dockerfile_recorded_only_if_absolute[OF b1 n1 p1 g,
        where img = "ImageComponent ''svc'' (Some ?abs)" and dockerfileImage = ?abs
          and localpath = "''/r1/both''" and reg = "''https://registry.example''" and dk = False]
    by simp
  have b: "AnalyzePath demoEnv ''/r1/both'' ''svc'' ''https://registry.example''
        (emptyMaps\<lparr>devfileMapFromRepo := [''svc'' \<mapsto> ''local-relative'']\<rparr>) True False [] =
      Inr (if prefix ''http'' (Uri ?rel)
           then (emptyMaps\<lparr>devfileMapFromRepo := [''svc'' \<mapsto> ''local-relative'']\<rparr>)
                  \<lparr>dockerfileContextMapFromRepo :=
                     (dockerfileContextMapFromRepo (emptyMaps\<lparr>devfileMapFromRepo := [''svc'' \<mapsto> ''local-relative'']\<rparr>))
                       (''svc'' \<mapsto> Uri ?rel)\<rparr>
           else emptyMaps\<lparr>devfileMapFromRepo := [''svc'' \<mapsto> ''local-relative'']\<rparr>)"
    using embedded_dockerfile_recorded_only_if_absolute[OF b2 n2 p2 g,
        where img = "ImageComponent ''svc'' (Some ?rel)" and dockerfileImage = ?rel
          and localpath = "''/r1/both''" and reg = "''https://registry.example''" and dk = False]
    by simp
  show ?thesis
    unfolding a b by (simp add: resultEntries_def contextEntries_def emptyMaps_def)
qed

text \<open>
  Root \<open>/r2\<close>: context \<open>a\<close> holds a valid devfile, context \<open>b\<close> an invalid one. Root
  \<open>/r8\<close>: the invalid devfile is in the hidden directory of the context. Both searches
  return the error alone.
\<close>

theorem invalid_manifest_aborts_search_witness:
  "search demoEnv ''/r2'' [] demoInfo =
     Inl (InvalidDevfile (External ''schemaVersion not present in devfile'')) \<and>
   search demoEnv ''/r8'' [] demoInfo =
     Inl (InvalidDevfile (External ''schemaVersion not present in devfile''))"
proof -
  let ?d = "DirEntry ''.devfile'' True"
  let ?h = "DirEntry ''devfile.yaml'' False"
  have root8: "ReadDir demoEnv ''/r8'' = Inr ([] @ DirEntry ''svc'' True # [])"
    by (simp add: demoEnv_def demoTree_def)
  have cur8: "''/r8/svc'' = pathJoin [''/r8'', Name (DirEntry ''svc'' True)]"
    and ctx8: "''svc'' = pathJoin [[], Name (DirEntry ''svc'' True)]"
    by (simp_all add: pathJoin_def Clean_def)
  have listing8: "ReadDir demoEnv ''/r8/svc'' = Inr ([] @ ?d # [DirEntry ''main.go'' False])"
    by (simp add: demoEnv_def demoTree_def)
  have manifest8:
    "(isDevfileName (ToLower (Name ?d)) \<and>
        ''/r8/svc/.devfile/devfile.yaml'' = pathJoin [''/r8/svc'', Name ?d] \<and>
        ''svc/.devfile/devfile.yaml'' = pathJoin [''svc'', Name ?d]) \<or>
     (\<not> isDevfileName (ToLower (Name ?d)) \<and> IsDir ?d \<and> Name ?d = HiddenDevfileDir \<and>
        ReadDir demoEnv (pathJoin [''/r8/svc'', HiddenDevfileDir]) = Inr ([] @ ?h # []) \<and>
        isDevfileName (ToLower (Name ?h)) \<and>
        ''/r8/svc/.devfile/devfile.yaml'' =
          pathJoin [pathJoin [''/r8/svc'', HiddenDevfileDir], Name ?h] \<and>
        ''svc/.devfile/devfile.yaml'' = pathJoin [''svc'', HiddenDevfileDir, Name ?h])"
    by code_simp
  have invalid8: "ValidateDevfile demoEnv ''/r8/svc/.devfile/devfile.yaml'' (Token demoInfo) =
      Inl (External ''schemaVersion not present in devfile'')"
    by (simp add: demoEnv_def demoManifests_def)
  have link8: "UpdateGitLink demoEnv (RepoURL demoInfo) (Revision demoInfo) ''svc/.devfile/devfile.yaml'' =
      Inr ''https://git.example/repo@main:svc/.devfile/devfile.yaml''"
    by (simp add: demoEnv_def demoInfo_def)
  from invalid_manifest_aborts_search[OF root8 _ cur8 ctx8 listing8 manifest8 invalid8,
      where ?m1.0 = emptyMaps
        and ?st1.0 = "\<lparr>M = emptyMaps, isDevfilePresent = False, isDockerfilePresent = False\<rparr>"
        and ?st2.0 = "\<lparr>M = emptyMaps, isDevfilePresent = False, isDockerfilePresent = False\<rparr>"
        and updatedLink = "''https://git.example/repo@main:svc/.devfile/devfile.yaml''"]
    link8
  have second: "search demoEnv ''/r8'' [] demoInfo =
     Inl (InvalidDevfile (External ''schemaVersion not present in devfile''))"
    by simp
  have root: "ReadDir demoEnv ''/r2'' = Inr ([DirEntry ''a'' True] @ DirEntry ''b'' True # [])"
    by (simp add: demoEnv_def demoTree_def)
  have dir: "IsDir (DirEntry ''b'' True)" by simp
  have cur: "''/r2/b'' = pathJoin [''/r2'', Name (DirEntry ''b'' True)]"
    and ctx: "''b'' = pathJoin [[], Name (DirEntry ''b'' True)]"
    by (simp_all add: pathJoin_def Clean_def)
  have listing: "ReadDir demoEnv ''/r2/b'' =
      Inr ([] @ DirEntry ''devfile.yaml'' False # [DirEntry ''main.go'' False])"
    by (simp add: demoEnv_def demoTree_def)
  have manifest:
    "(isDevfileName (ToLower (Name (DirEntry ''devfile.yaml'' False))) \<and>
        ''/r2/b/devfile.yaml'' = pathJoin [''/r2/b'', Name (DirEntry ''devfile.yaml'' False)] \<and>
        ''b/devfile.yaml'' = pathJoin [''b'', Name (DirEntry ''devfile.yaml'' False)]) \<or>
     (\<not> isDevfileName (ToLower (Name (DirEntry ''devfile.yaml'' False))) \<and>
        IsDir (DirEntry ''devfile.yaml'' False) \<and>
        Name (DirEntry ''devfile.yaml'' False) = HiddenDevfileDir \<and>
        ReadDir demoEnv (pathJoin [''/r2/b'', HiddenDevfileDir]) =
          Inr ([] @ DirEntry ''devfile.yaml'' False # []) \<and>
        isDevfileName (ToLower (Name (DirEntry ''devfile.yaml'' False))) \<and>
        ''/r2/b/devfile.yaml'' =
          pathJoin [pathJoin [''/r2/b'', HiddenDevfileDir], Name (DirEntry ''devfile.yaml'' False)] \<and>
        ''b/devfile.yaml'' = pathJoin [''b'', HiddenDevfileDir, Name (DirEntry ''devfile.yaml'' False)])"
    by code_simp
  have invalid: "ValidateDevfile demoEnv ''/r2/b/devfile.yaml'' (Token demoInfo) =
      Inl (External ''schemaVersion not present in devfile'')"
    by (simp add: demoEnv_def demoManifests_def)
  have "\<not> isl (searchLoop demoEnv demoInfo ''/r2'' [] [DirEntry ''a'' True] emptyMaps)"
    by code_simp
  then obtain m1 where pre: "searchLoop demoEnv demoInfo ''/r2'' [] [DirEntry ''a'' True] emptyMaps = Inr m1"
    by (cases "searchLoop demoEnv demoInfo ''/r2'' [] [DirEntry ''a'' True] emptyMaps") auto
  have link: "UpdateGitLink demoEnv (RepoURL demoInfo) (Revision demoInfo) ''b/devfile.yaml'' =
      Inr ''https://git.example/repo@main:b/devfile.yaml''"
    by (simp add: demoEnv_def demoInfo_def)
  from invalid_manifest_aborts_search[OF root dir cur ctx listing manifest invalid,
      where ?m1.0 = m1
        and ?st1.0 = "\<lparr>M = m1, isDevfilePresent = False, isDockerfilePresent = False\<rparr>"
        and ?st2.0 = "\<lparr>M = m1, isDevfilePresent = False, isDockerfilePresent = False\<rparr>"
        and updatedLink = "''https://git.example/repo@main:b/devfile.yaml''"]
    pre link
  have "search demoEnv ''/r2'' [] demoInfo =
     Inl (InvalidDevfile (External ''schemaVersion not present in devfile''))"
    by simp
  with second show ?thesis by simp
qed

text \<open>
  Root \<open>/r1\<close>, context \<open>both\<close>: the scan finds a Dockerfile and a valid devfile, and the
  result has a Dockerfile entry for the context, the absolute URI that the devfile declares.
\<close>

theorem manifest_and_dockerfile_entry_counterexample:
  "ReadDir demoEnv ''/r1/both'' = Inr [DirEntry ''Dockerfile'' False, DirEntry ''devfile.yaml'' False] \<and>
   scanOutcome
     (scanFiles demoEnv demoInfo ''/r1/both'' ''both''
        [DirEntry ''Dockerfile'' False, DirEntry ''devfile.yaml'' False]
        \<lparr>M = emptyMaps, isDevfilePresent = False, isDockerfilePresent = False\<rparr>) ''both'' =
     Inr (True, True, Some ''local-http'', Some ''https://git.example/repo@main:both/devfile.yaml'',
          Some ''Dockerfile'', None) \<and>
   resultEntries (search demoEnv ''/r1'' [] demoInfo) ''both'' =
     Inr (Some ''local-http'', Some ''https://git.example/repo@main:both/devfile.yaml'',
          Some ''http://example.com/Dockerfile'', None)"
  by code_simp

text \<open>
  Root \<open>/r11\<close>, context \<open>plain\<close>: a Dockerfile and a valid devfile that declares a relative
  URI; the entry of the scan is deleted and none takes its place in the result.
\<close>

theorem manifest_and_dockerfile_entry_replaced_witness:
  "scanOutcome
     (scanFiles demoEnv demoInfo ''/r11/plain'' ''plain''
        [DirEntry ''Dockerfile'' False, DirEntry ''devfile.yaml'' False]
        \<lparr>M = emptyMaps, isDevfilePresent = False, isDockerfilePresent = False\<rparr>) ''plain'' =
     Inr (True, True, Some ''local-relative'', Some ''https://git.example/repo@main:plain/devfile.yaml'',
          Some ''Dockerfile'', None) \<and>
   map_sum id (\<lambda>m. dockerfileContextMapFromRepo m ''plain'') (search demoEnv ''/r11'' [] demoInfo) =
     Inr None"
proof -
  let ?f = "DirEntry ''plain'' True"
  let ?files = "[DirEntry ''Dockerfile'' False, DirEntry ''devfile.yaml'' False]"
  have so: "scanOutcome
     (scanFiles demoEnv demoInfo ''/r11/plain'' ''plain'' ?files
        \<lparr>M = emptyMaps, isDevfilePresent = False, isDockerfilePresent = False\<rparr>) ''plain'' =
     Inr (True, True, Some ''local-relative'', Some ''https://git.example/repo@main:plain/devfile.yaml'',
          Some ''Dockerfile'', None)"
    by code_simp
  then obtain st where st:
    "scanFiles demoEnv demoInfo ''/r11/plain'' ''plain'' ?files
        \<lparr>M = emptyMaps, isDevfilePresent = False, isDockerfilePresent = False\<rparr> = Inr st"
    "isDevfilePresent st" "isDockerfilePresent st"
    "devfileMapFromRepo (M st) ''plain'' = Some ''local-relative''"
    by (auto simp: scanOutcome_def contextEntries_def split: sum.splits)
  have root: "ReadDir demoEnv ''/r11'' = Inr ([] @ ?f # [])"
    by (simp add: demoEnv_def demoTree_def)
  have dir: "IsDir ?f" by simp
  have cur: "''/r11/plain'' = pathJoin [''/r11'', Name ?f]"
    and ctx: "''plain'' = pathJoin [[], Name ?f]"
    by (simp_all add: pathJoin_def Clean_def)
  have unique: "\<forall>f' \<in> set [] \<union> set []. IsDir f' \<longrightarrow> pathJoin [[], Name f'] \<noteq> ''plain''"
    by simp
  have before: "searchLoop demoEnv demoInfo ''/r11'' [] [] emptyMaps = Inr emptyMaps"
    by simp
  have listing: "ReadDir demoEnv ''/r11/plain'' = Inr ?files"
    by (simp add: demoEnv_def demoTree_def)
  have "\<not> isl (search demoEnv ''/r11'' [] demoInfo)"
    by code_simp
  then obtain r where r: "search demoEnv ''/r11'' [] demoInfo = Inr r"
    by (cases "search demoEnv ''/r11'' [] demoInfo") auto
  have sfd: "SearchForDockerfile demoEnv ''local-relative'' (Token demoInfo) =
      Inr (Some (DockerfileImage ''docker/Dockerfile'' ''.''))"
    by code_simp
  from manifest_and_dockerfile_entry_replaced[OF root dir cur ctx unique r before listing
      st(1) st(2) st(3) refl refl]
  have "dockerfileContextMapFromRepo r ''plain'' = None"
    by (simp add: st(4) sfd)
  with so r show ?thesis by simp
qed

text \<open>
  Root \<open>/r3\<close>: nothing is detected in \<open>empty\<close>, which ends without entries, and the
  sibling \<open>go\<close> gets its four entries.
\<close>

theorem no_components_is_soft_failure_witness:
  "AnalyzeAndDetectDevfile demoEnv ''/r3/empty'' ''https://registry.example'' =
     Inl (NoDevfileFound ''/r3/empty'') \<and>
   resultEntries (searchEntry demoEnv demoInfo ''/r3'' ''ctx'' (DirEntry ''empty'' True) emptyMaps)
     ''ctx/empty'' = Inr (None, None, None, None) \<and>
   resultEntries (search demoEnv ''/r3'' ''ctx'' demoInfo) ''ctx/go'' =
     Inr (Some ''sample-devfile'', Some ''https://samples.example/go-basic@:devfile.yaml'',
          Some ''https://samples.example/go-basic@:docker/Dockerfile'', Some [8080, 9090])"
proof -
  let ?f = "DirEntry ''empty'' True"
  have so: "scanOutcome (scanContext demoEnv demoInfo ''/r3'' ''ctx'' ?f emptyMaps) ''ctx/empty'' =
      Inr (False, False, None, None, None, None)"
    by code_simp
  then obtain st where st: "scanContext demoEnv demoInfo ''/r3'' ''ctx'' ?f emptyMaps = Inr st"
    "\<not> isDevfilePresent st" "\<not> isDockerfilePresent st"
    "contextEntries (M st) ''ctx/empty'' = (None, None, None, None)"
    by (auto simp: scanOutcome_def split: sum.splits)
  have dir: "IsDir ?f" by simp
  have cur: "''/r3/empty'' = pathJoin [''/r3'', Name ?f]"
    and ctx: "''ctx/empty'' = pathJoin [''ctx'', Name ?f]"
    by (simp_all add: pathJoin_def Clean_def)
  have types: "getAlizerDevfileTypes demoEnv (DevfileRegistryURL demoInfo) =
      Inr [DevfileType ''go-basic'' ''Go'' ''Go'' None]"
    by (simp add: demoEnv_def)
  have none: "DetectComponents demoEnv ''/r3/empty'' = Inr []"
    by (simp add: demoEnv_def)
  have reg: "DevfileRegistryURL demoInfo = ''https://registry.example''"
    by (simp add: demoInfo_def)
  have go: "resultEntries (search demoEnv ''/r3'' ''ctx'' demoInfo) ''ctx/go'' =
     Inr (Some ''sample-devfile'', Some ''https://samples.example/go-basic@:devfile.yaml'',
          Some ''https://samples.example/go-basic@:docker/Dockerfile'', Some [8080, 9090])"
    by code_simp
  from no_components_is_soft_failure[OF dir cur ctx st(1) st(3) _ types none, of "[]"] st(2)
  have "AnalyzeAndDetectDevfile demoEnv ''/r3/empty'' (DevfileRegistryURL demoInfo) =
          Inl (NoDevfileFound ''/r3/empty'')"
    and "searchEntry demoEnv demoInfo ''/r3'' ''ctx'' ?f emptyMaps = Inr (M st)"
    by simp_all
  with st(4) go reg show ?thesis by (simp add: resultEntries_def)
qed

text \<open>
  Root \<open>/r4\<close>, context \<open>svc\<close>: only a Dockerfile on disk. Detection there returns two ports,
  and the result of the search has no port entry for the context.
\<close>

theorem dockerfile_only_context_counterexample:
  "ReadDir demoEnv ''/r4/svc'' = Inr [DirEntry ''Dockerfile'' False, DirEntry ''main.go'' False] \<and>
   AnalyzeAndDetectDevfile demoEnv ''/r4/svc'' ''https://registry.example'' =
     Inr (''sample-devfile'', ''https://samples.example/go-basic@:devfile.yaml'', ''go-basic'',
          Some [8080, 9090]) \<and>
   resultEntries (search demoEnv ''/r4'' [] demoInfo) ''svc'' =
     Inr (None, None, Some ''Dockerfile'', None)"
  by code_simp

text \<open>
  The same context: \<open>AnalyzePath\<close> called with no devfile and a Dockerfile stores the ports
  and nothing else; one iteration of \<open>search\<close> returns what the scan recorded.
\<close>

theorem dockerfile_only_ports_witness:
  "resultEntries
     (AnalyzePath demoEnv ''/r4/svc'' ''svc'' ''https://registry.example''
        (emptyMaps\<lparr>dockerfileContextMapFromRepo := [''svc'' \<mapsto> ''Dockerfile'']\<rparr>) False True [])
     ''svc'' = Inr (None, None, Some ''Dockerfile'', Some [8080, 9090]) \<and>
   resultEntries (searchEntry demoEnv demoInfo ''/r4'' [] (DirEntry ''svc'' True) emptyMaps) ''svc'' =
     Inr (None, None, Some ''Dockerfile'', None)"
proof -
  let ?f = "DirEntry ''svc'' True"
  let ?m = "emptyMaps\<lparr>dockerfileContextMapFromRepo := [''svc'' \<mapsto> ''Dockerfile'']\<rparr>"
  have so: "scanOutcome (scanContext demoEnv demoInfo ''/r4'' [] ?f emptyMaps) ''svc'' =
      Inr (False, True, None, None, Some ''Dockerfile'', None)"
    by code_simp
  then obtain st where st: "scanContext demoEnv demoInfo ''/r4'' [] ?f emptyMaps = Inr st"
    "\<not> isDevfilePresent st" "isDockerfilePresent st"
    "contextEntries (M st) ''svc'' = (None, None, Some ''Dockerfile'', None)"
    by (auto simp: scanOutcome_def split: sum.splits)
  have a: "AnalyzeAndDetectDevfile demoEnv ''/r4/svc'' ''https://registry.example'' =
     Inr (''sample-devfile'', ''https://samples.example/go-basic@:devfile.yaml'', ''go-basic'',
          Some [8080, 9090])"
    by code_simp
  note t = dockerfile_only_ports[of demoEnv "''/r4/svc''" "''svc''" "''https://registry.example''"
      ?m "[]" ?f demoInfo "''/r4''" "[]" emptyMaps st]
  from t obtain m' where m':
    "AnalyzePath demoEnv ''/r4/svc'' ''svc'' ''https://registry.example'' ?m False True [] = Inr m'"
    "devfileMapFromRepo m' = devfileMapFromRepo ?m"
    "devfilesURLMapFromRepo m' = devfilesURLMapFromRepo ?m"
    "dockerfileContextMapFromRepo m' = dockerfileContextMapFromRepo ?m"
    "componentPortsMapFromRepo m' ''svc'' = Some [8080, 9090]"
    unfolding a by auto
  from t st have s: "searchEntry demoEnv demoInfo ''/r4'' [] ?f emptyMaps = Inr (M st)"
    by simp
  show ?thesis
    using m' s st(4) by (simp add: resultEntries_def contextEntries_def emptyMaps_def)
qed

text \<open>
  Root \<open>/r5\<close>, context \<open>svc\<close>: its only file is a devfile classified as ignored. Root
  \<open>/r10\<close>, context \<open>svc\<close>: the ignored devfile is in the hidden directory; read with the
  flag set, it resets the flag, and the iteration of \<open>search\<close> is that on the file system
  without manifests.
\<close>

theorem ignored_devfile_is_absent_witness:
  "ValidateDevfile demoEnv ''/r5/svc/devfile.yaml'' [] = Inr (True, ''inner-loop'') \<and>
   scanOutcome
     (scanEntry demoEnv demoInfo ''/r5/svc'' ''svc'' (DirEntry ''devfile.yaml'' False)
        \<lparr>M = emptyMaps, isDevfilePresent = False, isDockerfilePresent = False\<rparr>) ''svc'' =
     Inr (False, False, None, None, None, None) \<and>
   searchEntry demoEnv demoInfo ''/r5'' [] (DirEntry ''svc'' True) emptyMaps =
     AnalyzePath demoEnv ''/r5/svc'' ''svc'' ''https://registry.example'' emptyMaps False False [] \<and>
   ValidateDevfile demoEnv ''/r10/svc/.devfile/devfile.yaml'' [] = Inr (True, ''inner-loop'') \<and>
   scanOutcome
     (scanEntry demoEnv demoInfo ''/r10/svc'' ''svc'' (DirEntry ''.devfile'' True)
        \<lparr>M = emptyMaps, isDevfilePresent = True, isDockerfilePresent = False\<rparr>) ''svc'' =
     Inr (False, False, None, None, None, None) \<and>
   searchEntry demoEnv demoInfo ''/r10'' [] (DirEntry ''svc'' True) emptyMaps =
     searchEntry (withoutManifests demoEnv) demoInfo ''/r10'' [] (DirEntry ''svc'' True) emptyMaps"
proof -
  let ?g = "DirEntry ''devfile.yaml'' False"
  let ?d = "DirEntry ''.devfile'' True"
  let ?f = "DirEntry ''svc'' True"
  let ?st = "\<lparr>M = emptyMaps, isDevfilePresent = False, isDockerfilePresent = False\<rparr>"
  let ?st1 = "\<lparr>M = emptyMaps, isDevfilePresent = True, isDockerfilePresent = False\<rparr>"
  note t = ignored_devfile_is_absent[where env = demoEnv and cdqInfo = demoInfo and f = ?f
      and srcContext = "[]" and m = emptyMaps]
  have name: "isDevfileName (ToLower (Name ?g))" by code_simp
  have link: "UpdateGitLink demoEnv (RepoURL demoInfo) (Revision demoInfo) (pathJoin [''svc'', Name ?g]) =
      Inr (''https://git.example/repo@main:'' @ pathJoin [''svc'', Name ?g])"
    by (simp add: demoEnv_def demoInfo_def)
  have p: "pathJoin [''/r5/svc'', Name ?g] = ''/r5/svc/devfile.yaml''"
    "pathJoin [''/r5'', Name ?f] = ''/r5/svc''" "pathJoin [[], Name ?f] = ''svc''"
    "pathJoin [''/r10'', Name ?f] = ''/r10/svc''"
    "pathJoin [''/r10/svc'', HiddenDevfileDir] = ''/r10/svc/.devfile''"
    "pathJoin [''/r10/svc/.devfile'', Name ?g] = ''/r10/svc/.devfile/devfile.yaml''"
    by (simp_all add: pathJoin_def Clean_def HiddenDevfileDir_def)
  have v: "ValidateDevfile demoEnv ''/r5/svc/devfile.yaml'' [] = Inr (True, ''inner-loop'')"
    and v10: "ValidateDevfile demoEnv ''/r10/svc/.devfile/devfile.yaml'' [] = Inr (True, ''inner-loop'')"
    by (simp_all add: demoEnv_def demoManifests_def)
  have ignored: "ValidateDevfile demoEnv (pathJoin [''/r5/svc'', Name ?g]) (Token demoInfo) =
      Inr (True, ''inner-loop'')"
    unfolding p using v by (simp add: demoInfo_def)
  have listing: "ReadDir demoEnv ''/r5/svc'' = Inr [?g]"
    by (simp add: demoEnv_def demoTree_def)
  have dir: "IsDir ?f" by simp
  from t[THEN conjunct1, rule_format, OF name link ignored, where st = ?st and localpath = "''/r5''"]
    listing p dir
  have flat: "scanEntry demoEnv demoInfo ''/r5/svc'' ''svc'' ?g ?st = Inr (?st\<lparr>isDevfilePresent := False\<rparr>)"
    and only: "searchEntry demoEnv demoInfo ''/r5'' [] ?f emptyMaps =
      AnalyzePath demoEnv ''/r5/svc'' ''svc'' (DevfileRegistryURL demoInfo) emptyMaps False False
        (Token demoInfo)"
    by simp_all
  have d: "\<not> isDevfileName (ToLower (Name ?d))" "IsDir ?d" "Name ?d = HiddenDevfileDir"
    by code_simp+
  have hl: "ReadDir demoEnv (pathJoin [''/r10/svc'', HiddenDevfileDir]) = Inr ([] @ ?g # [])"
    unfolding p by (simp add: demoEnv_def demoTree_def)
  have hlink: "UpdateGitLink demoEnv (RepoURL demoInfo) (Revision demoInfo)
      (pathJoin [''svc'', HiddenDevfileDir, Name ?g]) =
      Inr (''https://git.example/repo@main:'' @ pathJoin [''svc'', HiddenDevfileDir, Name ?g])"
    by (simp add: demoEnv_def demoInfo_def)
  have hign: "ValidateDevfile demoEnv (pathJoin [pathJoin [''/r10/svc'', HiddenDevfileDir], Name ?g])
      (Token demoInfo) = Inr (True, ''inner-loop'')"
    unfolding p using v10 by (simp add: demoInfo_def)
  from t[THEN conjunct2, THEN conjunct1, rule_format, OF d hl name hlink hign, where st = ?st1]
  have hidden: "scanEntry demoEnv demoInfo ''/r10/svc'' ''svc'' ?d ?st1 =
      Inr (?st1\<lparr>isDevfilePresent := False\<rparr>)"
    by simp
  have mi: "manifestsIgnored demoEnv demoInfo (pathJoin [''/r10'', Name ?f]) [pathJoin [[], Name ?f]]"
    and mh: "manifestsIgnored demoEnv demoInfo (pathJoin [pathJoin [''/r10'', Name ?f], HiddenDevfileDir])
      [pathJoin [[], Name ?f], HiddenDevfileDir]"
    by code_simp+
  from t[THEN conjunct2, THEN conjunct2, rule_format, OF dir mi mh]
  have whole: "searchEntry demoEnv demoInfo ''/r10'' [] ?f emptyMaps =
      searchEntry (withoutManifests demoEnv) demoInfo ''/r10'' [] ?f emptyMaps"
    by simp
  show ?thesis
    using v v10 flat only hidden whole
    by (simp add: scanOutcome_def contextEntries_def emptyMaps_def demoInfo_def)
qed

text \<open>
  A detected list of two ports is stored; a detected empty list leaves the key absent.
\<close>

theorem ports_recorded_iff_detected_witness:
  "AnalyzeAndDetectDevfile demoEnv ''/r3/go'' ''https://registry.example'' =
     Inr (''sample-devfile'', ''https://samples.example/go-basic@:devfile.yaml'', ''go-basic'',
          Some [8080, 9090]) \<and>
   map_sum id (\<lambda>m. componentPortsMapFromRepo m ''go'')
     (AnalyzePath demoEnv ''/r3/go'' ''go'' ''https://registry.example'' emptyMaps False False []) =
     Inr (Some [8080, 9090]) \<and>
   AnalyzeAndDetectDevfile demoEnv ''/r3/noports'' ''https://registry.example'' =
     Inr (''sample-devfile'', ''https://samples.example/go-basic@:devfile.yaml'', ''go-basic'', Some []) \<and>
   map_sum id (\<lambda>m. componentPortsMapFromRepo m ''noports'')
     (AnalyzePath demoEnv ''/r3/noports'' ''noports'' ''https://registry.example'' emptyMaps False False []) =
     Inr None \<and>
   map_sum id (\<lambda>m. componentPortsMapFromRepo m ''svc'') (search demoEnv ''/r7'' [] demoInfo) =
     Inr (Some [8080, 9090])"
proof -
  let ?f = "DirEntry ''svc'' True"
  have root: "ReadDir demoEnv ''/r7'' = Inr ([] @ ?f # [DirEntry ''web'' True])"
    by (simp add: demoEnv_def demoTree_def)
  have dir: "IsDir ?f" by simp
  have p7: "pathJoin [[], Name ?f] = ''svc''" "pathJoin [''/r7'', Name ?f] = ''/r7/svc''"
    by (simp_all add: pathJoin_def Clean_def)
  have unique: "\<forall>f' \<in> set [] \<union> set [DirEntry ''web'' True]. IsDir f' \<longrightarrow>
      pathJoin [[], Name f'] \<noteq> pathJoin [[], Name ?f]"
    by (simp add: pathJoin_def Clean_def)
  have "\<not> isl (search demoEnv ''/r7'' [] demoInfo)"
    by code_simp
  then obtain r where r: "search demoEnv ''/r7'' [] demoInfo = Inr r"
    by (cases "search demoEnv ''/r7'' [] demoInfo") auto
  have so: "scanOutcome (scanContext demoEnv demoInfo ''/r7'' [] ?f emptyMaps) ''svc'' =
      Inr (False, False, None, None, None, None)"
    by code_simp
  have a7: "AnalyzeAndDetectDevfile demoEnv ''/r7/svc'' (DevfileRegistryURL demoInfo) =
     Inr (''sample-devfile'', ''https://samples.example/go-basic@:devfile.yaml'', ''go-basic'',
          Some [8080, 9090])"
    by code_simp
  from ports_recorded_iff_detected[where ports = "[8080, 9090]", THEN conjunct1, THEN mp, OF root,
      THEN mp, OF dir, THEN mp, OF unique, THEN mp, OF r]
  obtain m0 st where m0: "searchLoop demoEnv demoInfo ''/r7'' [] [] emptyMaps = Inr m0"
    and st: "scanContext demoEnv demoInfo ''/r7'' [] ?f m0 = Inr st"
    and iff: "componentPortsMapFromRepo r (pathJoin [[], Name ?f]) = Some [8080, 9090] \<longleftrightarrow>
            \<not> isDockerfilePresent st \<and>
            (isDevfilePresent st \<longrightarrow>
               SearchForDockerfile demoEnv
                 (case devfileMapFromRepo (M st) (pathJoin [[], Name ?f]) of
                    None \<Rightarrow> [] | Some b \<Rightarrow> b)
                 (Token demoInfo) = Inr None) \<and>
            (\<exists>b u s. AnalyzeAndDetectDevfile demoEnv (pathJoin [''/r7'', Name ?f]) (DevfileRegistryURL demoInfo) =
                       Inr (b, u, s, Some [8080, 9090])) \<and>
            [8080, 9090] \<noteq> ([] :: int list)"
    by blast
  from m0 have "m0 = emptyMaps" by simp
  with st so have "\<not> isDevfilePresent st" "\<not> isDockerfilePresent st"
    by (auto simp: scanOutcome_def)
  with iff a7 have s7: "componentPortsMapFromRepo r ''svc'' = Some [8080, 9090]"
    unfolding p7 by simp
  have b: "AnalyzeAndDetectDevfile demoEnv ''/r3/noports'' ''https://registry.example'' =
     Inr (''sample-devfile'', ''https://samples.example/go-basic@:devfile.yaml'', ''go-basic'', Some [])"
    by code_simp
  have "\<not> isl (AnalyzePath demoEnv ''/r3/noports'' ''noports'' ''https://registry.example'' emptyMaps False False [])"
    by code_simp
  then obtain m2 where ok2:
    "AnalyzePath demoEnv ''/r3/noports'' ''noports'' ''https://registry.example'' emptyMaps False False [] = Inr m2"
    by (cases "AnalyzePath demoEnv ''/r3/noports'' ''noports'' ''https://registry.example'' emptyMaps False False []") auto
  have fresh2: "componentPortsMapFromRepo emptyMaps ''noports'' = None"
    by (simp add: emptyMaps_def)
  have none: "componentPortsMapFromRepo m2 ''noports'' = None"
  proof (cases "componentPortsMapFromRepo m2 ''noports''")
    case None
    then show ?thesis .
  next
    case (Some ps)
    with ports_recorded_iff_detected[THEN conjunct2, THEN conjunct2, rule_format, OF ok2 fresh2,
        where ports = ps] b
    show ?thesis by auto
  qed
  have a: "AnalyzeAndDetectDevfile demoEnv ''/r3/go'' ''https://registry.example'' =
     Inr (''sample-devfile'', ''https://samples.example/go-basic@:devfile.yaml'', ''go-basic'',
          Some [8080, 9090])"
    by code_simp
  have "\<not> isl (AnalyzePath demoEnv ''/r3/go'' ''go'' ''https://registry.example'' emptyMaps False False [])"
    by code_simp
  then obtain m' where ok:
    "AnalyzePath demoEnv ''/r3/go'' ''go'' ''https://registry.example'' emptyMaps False False [] = Inr m'"
    by (cases "AnalyzePath demoEnv ''/r3/go'' ''go'' ''https://registry.example'' emptyMaps False False []") auto
  have fresh: "componentPortsMapFromRepo emptyMaps ''go'' = None"
    by (simp add: emptyMaps_def)
  from ports_recorded_iff_detected[THEN conjunct2, THEN conjunct2, rule_format, OF ok fresh,
      where ports = "[8080, 9090]"] a
  have "componentPortsMapFromRepo m' ''go'' = Some [8080, 9090]" by simp
  with a ok b ok2 none r s7 show ?thesis by simp
qed

text \<open>
  Root \<open>/r9\<close>, context \<open>lib\<close>: Alizer returns a component with two ports and no language
  that can be a component; nothing is recorded for the context.
\<close>

theorem detected_ports_not_recorded_counterexample:
  "ReadDir demoEnv ''/r9/lib'' = Inr [DirEntry ''README.md'' False] \<and>
   DetectComponents demoEnv ''/r9/lib'' =
     Inr [AlizerComponent [Language ''Markdown'' False] (Some [8080, 9090])] \<and>
   resultEntries (search demoEnv ''/r9'' [] demoInfo) ''lib'' = Inr (None, None, None, None)"
  by code_simp

text \<open>
  C7: a context in which a valid devfile was found on disk must keep its devfile bytes and
  URL, whatever fallback detection returns. The code at root \<open>/r6\<close>, context \<open>svc\<close>: a
  valid \<open>.devfile.yaml\<close> is read and stored, then an ignored \<open>devfile.yaml\<close> is read; the
  scan ends with the bytes and the URL of the valid devfile in the maps and the flag devfile
  present false, and the result of \<open>search\<close> holds the bytes and the URL of the registry
  sample in their place.
\<close>

theorem local_manifest_overwritten:
  "ReadDir demoEnv ''/r6/svc'' = Inr [DirEntry ''.devfile.yaml'' False, DirEntry ''devfile.yaml'' False] \<and>
   ValidateDevfile demoEnv ''/r6/svc/.devfile.yaml'' [] = Inr (False, ''local-plain'') \<and>
   ValidateDevfile demoEnv ''/r6/svc/devfile.yaml'' [] = Inr (True, ''inner-loop'') \<and>
   scanOutcome
     (scanFiles demoEnv demoInfo ''/r6/svc'' ''svc''
        [DirEntry ''.devfile.yaml'' False, DirEntry ''devfile.yaml'' False]
        \<lparr>M = emptyMaps, isDevfilePresent = False, isDockerfilePresent = False\<rparr>) ''svc'' =
     Inr (False, False, Some ''local-plain'', Some ''https://git.example/repo@main:svc/.devfile.yaml'',
          None, None) \<and>
   resultEntries (search demoEnv ''/r6'' [] demoInfo) ''svc'' =
     Inr (Some ''sample-devfile'', Some ''https://samples.example/go-basic@:devfile.yaml'',
          Some ''https://samples.example/go-basic@:docker/Dockerfile'', Some [8080, 9090])"
  by code_simp

text \<open>
  With a devfile present and a registry match, the Dockerfile and the ports are added and
  the devfile bytes and URL stay.
\<close>

lemma present_devfile_never_replaced_example:
  "resultEntries
     (AnalyzePath demoEnv ''/r3/go'' ''go'' ''https://registry.example''
        (emptyMaps\<lparr>devfileMapFromRepo := [''go'' \<mapsto> ''local-plain''],
                    devfilesURLMapFromRepo := [''go'' \<mapsto> ''https://git.example/repo@main:go/devfile.yaml'']\<rparr>)
        True False []) ''go'' =
     Inr (Some ''local-plain'', Some ''https://git.example/repo@main:go/devfile.yaml'',
          Some ''https://samples.example/go-basic@:docker/Dockerfile'', Some [8080, 9090])"
proof -
  let ?m = "emptyMaps\<lparr>devfileMapFromRepo := [''go'' \<mapsto> ''local-plain''],
                    devfilesURLMapFromRepo := [''go'' \<mapsto> ''https://git.example/repo@main:go/devfile.yaml'']\<rparr>"
  let ?r = "AnalyzePath demoEnv ''/r3/go'' ''go'' ''https://registry.example'' ?m True False []"
  have e: "map_sum id (\<lambda>m. (dockerfileContextMapFromRepo m ''go'', componentPortsMapFromRepo m ''go'')) ?r =
      Inr (Some ''https://samples.example/go-basic@:docker/Dockerfile'', Some [8080, 9090])"
    by code_simp
  then obtain m' where ok: "?r = Inr m'"
    and d: "dockerfileContextMapFromRepo m' ''go'' = Some ''https://samples.example/go-basic@:docker/Dockerfile''"
    and p: "componentPortsMapFromRepo m' ''go'' = Some [8080, 9090]"
    by (cases ?r) auto
  from present_devfile_never_replaced[THEN conjunct1, rule_format, OF ok]
  have "devfileMapFromRepo m' = devfileMapFromRepo ?m" "devfilesURLMapFromRepo m' = devfilesURLMapFromRepo ?m"
    by simp_all
  with ok d p show ?thesis
    by (simp add: resultEntries_def contextEntries_def)
qed

text \<open>
  Root \<open>/r7\<close>: a second file system with invalid manifests in \<open>svc/src\<close> and in
  \<open>svc/src/deep\<close>, one and two levels below the context \<open>svc\<close>; the result is the same.
\<close>

theorem search_depth_bound_witness:
  "search (demoEnv\<lparr>ReadDir := (\<lambda>p. if p = ''/r7/svc/src'' then Inr [DirEntry ''deep'' True, DirEntry ''devfile.yaml'' False]
                                     else if p = ''/r7/svc/src/deep'' then Inr [DirEntry ''devfile.yaml'' False]
                                     else ReadDir demoEnv p),
                   ValidateDevfile := (\<lambda>p. if p = ''/r7/svc/src/devfile.yaml'' \<or> p = ''/r7/svc/src/deep/devfile.yaml''
                                     then (\<lambda>token. Inl (External ''not a devfile''))
                                     else ValidateDevfile demoEnv p)\<rparr>) ''/r7'' [] demoInfo =
   search demoEnv ''/r7'' [] demoInfo"
proof -
  let ?r = "\<lambda>p. if p = ''/r7/svc/src'' then Inr [DirEntry ''deep'' True, DirEntry ''devfile.yaml'' False]
                 else if p = ''/r7/svc/src/deep'' then Inr [DirEntry ''devfile.yaml'' False]
                 else ReadDir demoEnv p"
  let ?v = "\<lambda>p. if p = ''/r7/svc/src/devfile.yaml'' \<or> p = ''/r7/svc/src/deep/devfile.yaml''
                 then (\<lambda>token. Inl (External ''not a devfile''))
                 else ValidateDevfile demoEnv p"
  have sd: "scannedDirs demoEnv ''/r7'' =
      [''/r7'', ''/r7/svc'', ''/r7/svc/.devfile'', ''/r7/svc/docker'', ''/r7/svc/.docker'', ''/r7/svc/build'',
       ''/r7/web'', ''/r7/web/.devfile'', ''/r7/web/docker'', ''/r7/web/.docker'', ''/r7/web/build'']"
    by code_simp
  have sm: "scannedManifests demoEnv ''/r7'' = [''/r7/web/devfile.yaml'']"
    by code_simp
  have dirs: "\<forall>p \<in> set (scannedDirs demoEnv ''/r7''). ?r p = ReadDir demoEnv p"
    unfolding sd by simp
  have mans: "\<forall>p \<in> set (scannedManifests demoEnv ''/r7''). ?v p = ValidateDevfile demoEnv p"
    unfolding sm by simp
  from search_depth_bound[OF dirs mans] show ?thesis .
qed

end
